theory Spec2Isabelle
  imports Main "HOL-Library.Sublist" "HOL-Library.Word" "HOL-Library.Char_ord"
    "HOL-Library.List_Lexorder"
begin

section \<open>Storage key layout\<close>

text \<open>
  The storage service of the analyzer keeps every blob of a work item under the key
  prefix \<open>userId/fileId\<close> of one bucket. \<open>getS3Locations\<close> derives the six fixed keys
  of a work item from the pair; the template literals of the source are string
  concatenations here.
\<close>

record S3Locations =
  metadata :: string
  originalContent :: string
  analysisResults :: string
  iacDocument :: string
  packedContent :: string
  supportingDocument :: string

definition getS3Locations :: "string \<Rightarrow> string \<Rightarrow> S3Locations" where
  "getS3Locations userId fileId =
     (let prefix = userId @ ''/'' @ fileId in
      \<lparr> metadata = prefix @ ''/metadata.json'',
        originalContent = prefix @ ''/original_content'',
        analysisResults = prefix @ ''/analysis/analysis_results.json'',
        iacDocument = prefix @ ''/iac_templates/generated_template'',
        packedContent = prefix @ ''/packed_content'',
        supportingDocument = prefix @ ''/supporting_document'' \<rparr>)"

text \<open>
  The storage root \<open>`${userId}/${fileId}`\<close>, as the source writes it for the \<open>s3Prefix\<close>
  field of a work item and for the listing of \<open>deleteWorkItem\<close>.
\<close>

definition s3Prefix :: "string \<Rightarrow> string \<Rightarrow> string" where
  "s3Prefix userId fileId = userId @ ''/'' @ fileId"

definition location_keys :: "S3Locations \<Rightarrow> string list" where
  "location_keys l =
     [metadata l, originalContent l, analysisResults l, iacDocument l, packedContent l,
      supportingDocument l]"

text \<open>
  Both identifiers are produced by \<open>createHash('sha256')...digest('hex')\<close>
  (\<open>createUserIdHash\<close>, \<open>createFileIdHash\<close>): 64 lower-case hexadecimal digits.
\<close>

definition is_hex_digit :: "char \<Rightarrow> bool" where
  "is_hex_digit c = (c \<in> set ''0123456789abcdef'')"

definition is_sha256_hex :: "string \<Rightarrow> bool" where
  "is_sha256_hex s = (length s = 64 \<and> list_all is_hex_digit s)"



section \<open>Values, errors and the platform\<close>

text \<open>
  A JavaScript string is a \<open>string\<close>, a \<open>Buffer\<close> a list of bytes. A value that is
  \<open>string | Buffer\<close> in the source is a \<open>payload\<close>.
\<close>

type_synonym bytes = "8 word list"

datatype payload = StringData string | BufferData bytes

text \<open>\<open>typeof content === 'string'\<close>\<close>

fun isString :: "payload \<Rightarrow> bool" where
  "isString (StringData s) = True"
| "isString (BufferData b) = False"

text \<open>Every failure of the service is a JavaScript \<open>Error\<close> carrying a message.\<close>

datatype error = Error (message: string)

text \<open>
  The scalar values a work item holds, as \<open>marshall\<close> writes them to the table and
  \<open>unmarshall\<close> reads them back. An item of the table is a finite map from attribute
  names to such values; an object literal of the source is the association list of its
  properties (a property that is \<open>undefined\<close> is not in the list).
\<close>

datatype attr = A_S string | A_N int | A_BOOL bool | A_NULL

type_synonym item = "string \<Rightarrow> attr option"

text \<open>
  \<open>marshall\<close> of \<open>@aws-sdk/util-dynamodb\<close> makes the item of an object. With the
  options the service passes it throws on a number greater than
  \<open>Number.MAX_SAFE_INTEGER\<close> (\<open>2^53 - 1\<close>) or less than \<open>Number.MIN_SAFE_INTEGER\<close>.
  The message of that error spells the number and the bound; the service replaces the
  error by one of its own wherever it calls \<open>marshall\<close>, so one message stands for all.
\<close>

definition marshallable :: "attr \<Rightarrow> bool" where
  "marshallable v =
     (case v of
        A_N n \<Rightarrow> - 9007199254740991 \<le> n \<and> n \<le> 9007199254740991
      | _ \<Rightarrow> True)"

definition marshall :: "(string \<times> attr) list \<Rightarrow> error + item" where
  "marshall obj =
     (if list_all (\<lambda>(key, v). marshallable v) obj then Inr (map_of obj)
      else Inl (Error ''Number is outside of the safe integer range. Use BigInt.''))"

text \<open>The truth value JavaScript gives a property that may be \<open>undefined\<close>.\<close>

fun truthy :: "attr option \<Rightarrow> bool" where
  "truthy None = False"
| "truthy (Some (A_S s)) = (s \<noteq> [])"
| "truthy (Some (A_N n)) = (n \<noteq> 0)"
| "truthy (Some (A_BOOL b)) = b"
| "truthy (Some A_NULL) = False"

text \<open>
  The declaration of \<open>FileUploadMode\<close> (\<open>shared/dto/analysis.dto\<close>) is not among the
  sources: its three members are those the service names, and the string each member
  stands for at run time is a parameter (\<open>modeValue\<close> below).
\<close>

datatype FileUploadMode = SINGLE_FILE | MULTIPLE_FILES | ZIP_FILE

text \<open>The result of \<open>ProjectPacker\<close>, as \<open>handleZipFile\<close> reads it.\<close>

record PackedProject =
  pp_packedContent :: string
  pp_tokenCount :: int
  pp_exceedsTokenLimit :: bool

record UploadedFile =
  uf_filename :: string
  uf_buffer :: bytes
  uf_mimetype :: string

text \<open>
  What the service takes from its surroundings: the configuration flag, the clock, the
  functions of Node.js it calls (\<open>createHash\<close>, the encodings of \<open>Buffer\<close>,
  \<open>JSON.stringify\<close>) and the three methods of \<open>ProjectPacker\<close>, whose source is not
  part of the sources. The names of the bucket and of the table are left out: the
  service has one of each.
\<close>

record env =
  enabled :: bool
  dateNow :: string
  isoNow :: string
  sha256Hex :: "string \<Rightarrow> string"
  utf8Encode :: "string \<Rightarrow> bytes"
  utf8Decode :: "bytes \<Rightarrow> string"
  base64Encode :: "bytes \<Rightarrow> string"
  base64Decode :: "string \<Rightarrow> bytes"
  jsonStringify :: "(string \<times> attr) list \<Rightarrow> string"
  modeValue :: "FileUploadMode \<Rightarrow> string"
  processZipFile :: "bytes \<Rightarrow> string \<Rightarrow> error + PackedProject"
  createZipFromFiles :: "UploadedFile list \<Rightarrow> error + bytes"
  processMultipleFiles :: "UploadedFile list \<Rightarrow> error + PackedProject"

definition createFileIdHash :: "env \<Rightarrow> string \<Rightarrow> string" where
  "createFileIdHash env input = sha256Hex env input"


section \<open>The two stores\<close>

text \<open>
  The bucket is an association list from keys to objects, the table a map from the
  pair (partition key \<open>userId\<close>, sort key \<open>fileId\<close>) to items. \<open>requests\<close> records every
  command the service has sent, in order. \<open>outage\<close> says which requests the stores do
  not serve (the request of index \<open>n\<close> fails when \<open>outage n\<close>), so that the failures
  of the network and of the services are inputs of the model. Limits on the sizes of
  keys, items and requests are not modelled.
\<close>

record s3_object =
  obj_body :: bytes
  obj_contentType :: "string option"

datatype request =
    Upload string
  | GetObjectCommand string
  | ListObjectsV2Command string
  | DeleteObjectsCommand "string list"
  | PutItemCommand "(string \<times> string) option"
  | GetItemCommand "string \<times> string"
  | UpdateItemCommand "string \<times> string" string
  | DeleteItemCommand "string \<times> string"

record world =
  objects :: "(string \<times> s3_object) list"
  table :: "string \<times> string \<Rightarrow> item option"
  requests :: "request list"
  outage :: "nat \<Rightarrow> bool"

text \<open>
  An operation of the service runs on a world and gives the value it resolves to, or
  the error it rejects with, and the world it leaves.
\<close>

type_synonym 'a io = "world \<Rightarrow> (error + 'a) \<times> world"

definition io_return :: "'a \<Rightarrow> 'a io" where
  "io_return x = (\<lambda>w. (Inr x, w))"

definition io_throw :: "error \<Rightarrow> 'a io" where
  "io_throw e = (\<lambda>w. (Inl e, w))"

definition io_lift :: "error + 'a \<Rightarrow> 'a io" where
  "io_lift r = (\<lambda>w. (r, w))"

definition io_bind :: "'a io \<Rightarrow> ('a \<Rightarrow> 'b io) \<Rightarrow> 'b io" where
  "io_bind m f = (\<lambda>w. case m w of (Inl e, w') \<Rightarrow> (Inl e, w') | (Inr x, w') \<Rightarrow> f x w')"

definition io_catch :: "'a io \<Rightarrow> (error \<Rightarrow> 'a io) \<Rightarrow> 'a io" where
  "io_catch m h = (\<lambda>w. case m w of (Inl e, w') \<Rightarrow> h e w' | (Inr x, w') \<Rightarrow> (Inr x, w'))"

text \<open>
  \<open>send\<close> records the request and, unless the stores are out at that moment, lets the
  store act on it.
\<close>

definition send :: "request \<Rightarrow> 'a io \<Rightarrow> 'a io" where
  "send r act =
     (\<lambda>w. let w' = w\<lparr>requests := requests w @ [r]\<rparr> in
        if outage w (length (requests w)) then (Inl (Error ''ServiceUnavailable''), w')
        else act w')"

subsection \<open>The object store\<close>

definition s3_store :: "string \<Rightarrow> s3_object \<Rightarrow> (string \<times> s3_object) list \<Rightarrow> (string \<times> s3_object) list" where
  "s3_store k obj objs = (k, obj) # filter (\<lambda>p. fst p \<noteq> k) objs"

definition bodyBytes :: "env \<Rightarrow> payload \<Rightarrow> bytes" where
  "bodyBytes env body = (case body of StringData s \<Rightarrow> utf8Encode env s | BufferData b \<Rightarrow> b)"

text \<open>\<open>new Upload({params: {Key, Body, ContentType}}).done()\<close>\<close>

definition upload_done :: "env \<Rightarrow> string \<Rightarrow> payload \<Rightarrow> string option \<Rightarrow> unit io" where
  "upload_done env key body contentType =
     send (Upload key)
       (\<lambda>w. (Inr (),
          w\<lparr>objects := s3_store key \<lparr>obj_body = bodyBytes env body, obj_contentType = contentType\<rparr>
                          (objects w)\<rparr>))"

definition s3_getObject :: "string \<Rightarrow> s3_object io" where
  "s3_getObject key =
     send (GetObjectCommand key)
       (\<lambda>w. case map_of (objects w) key of
               None \<Rightarrow> (Inl (Error ''NoSuchKey''), w)
             | Some obj \<Rightarrow> (Inr obj, w))"

text \<open>
  \<open>ListObjectsV2\<close> answers with at most 1000 keys, in the order of their bytes; the
  service reads one answer and never asks for the rest.
\<close>

definition listedKeys :: "string \<Rightarrow> (string \<times> s3_object) list \<Rightarrow> string list" where
  "listedKeys pre objs = take 1000 (sort (filter (prefix pre) (map fst objs)))"

definition s3_listObjects :: "string \<Rightarrow> string list io" where
  "s3_listObjects pre =
     send (ListObjectsV2Command pre) (\<lambda>w. (Inr (listedKeys pre (objects w)), w))"

definition s3_deleteObjects :: "string list \<Rightarrow> unit io" where
  "s3_deleteObjects keys =
     send (DeleteObjectsCommand keys)
       (\<lambda>w. (Inr (), w\<lparr>objects := filter (\<lambda>p. fst p \<notin> set keys) (objects w)\<rparr>))"


subsection \<open>The metadata store\<close>

text \<open>
  The item that holds the two key attributes only. \<open>marshall({userId, fileId})\<close>, the
  key of a request, is this item: the two values are strings, and \<open>marshall\<close> does not
  fail on them.
\<close>

definition keyItem :: "string \<times> string \<Rightarrow> item" where
  "keyItem k = map_of [(''userId'', A_S (fst k)), (''fileId'', A_S (snd k))]"

definition itemKey :: "item \<Rightarrow> (string \<times> string) option" where
  "itemKey it =
     (case (it ''userId'', it ''fileId'') of
        (Some (A_S u), Some (A_S f)) \<Rightarrow> Some (u, f)
      | _ \<Rightarrow> None)"

text \<open>\<open>PutItem\<close> writes the item under the key its attributes give, replacing what was there.\<close>

definition ddb_putItem :: "item \<Rightarrow> unit io" where
  "ddb_putItem it =
     send (PutItemCommand (itemKey it))
       (\<lambda>w. case itemKey it of
               None \<Rightarrow> (Inl (Error ''ValidationException''), w)
             | Some k \<Rightarrow> (Inr (), w\<lparr>table := (table w)(k \<mapsto> it)\<rparr>))"

text \<open>\<open>GetItem\<close> answers without \<open>Item\<close> when the table holds nothing under the key.\<close>

definition ddb_getItem :: "string \<times> string \<Rightarrow> item option io" where
  "ddb_getItem k = send (GetItemCommand k) (\<lambda>w. (Inr (table w k), w))"

text \<open>\<open>DeleteItem\<close> with no condition succeeds whether or not the item exists.\<close>

definition ddb_deleteItem :: "string \<times> string \<Rightarrow> unit io" where
  "ddb_deleteItem k =
     send (DeleteItemCommand k) (\<lambda>w. (Inr (), w\<lparr>table := (table w)(k := None)\<rparr>))"

text \<open>
  The update expressions that \<open>updateWorkItem\<close> builds have the form
  \<open>SET #a = :a, #b = :b\<close>. The store accepts such an expression when it has at least
  one clause and every placeholder is \<open>#\<close> or \<open>:\<close> followed by letters, digits and
  underscores; it rejects the request when a placeholder has no entry in the maps sent
  with it, when an attribute is set twice, and when a key attribute is set.
\<close>

definition is_name_char :: "char \<Rightarrow> bool" where
  "is_name_char c =
     (c \<in> set ''abcdefghijklmnopqrstuvwxyzABCDEFGHIJKLMNOPQRSTUVWXYZ0123456789_'')"

primrec split_clauses :: "string \<Rightarrow> string list" where
  "split_clauses [] = [[]]"
| "split_clauses (c # cs) =
     (case split_clauses cs of
        [] \<Rightarrow> [[c]]
      | x # xs \<Rightarrow>
          if c = CHR '','' \<and> take 1 x = '' '' then [] # drop 1 x # xs else (c # x) # xs)"

definition parse_clause :: "string \<Rightarrow> (string \<times> string) option" where
  "parse_clause s =
     (case s of
        [] \<Rightarrow> None
      | c # r \<Rightarrow>
          let n = takeWhile is_name_char r; r' = dropWhile is_name_char r; v = drop 4 r' in
          if c = CHR ''#'' \<and> n \<noteq> [] \<and> take 4 r' = '' = :'' \<and> v \<noteq> [] \<and> list_all is_name_char v
          then Some (CHR ''#'' # n, CHR '':'' # v)
          else None)"

definition valid_placeholder_name :: "string \<Rightarrow> bool" where
  "valid_placeholder_name k = (k \<noteq> [] \<and> list_all is_name_char k)"

definition parse_update_expression :: "string \<Rightarrow> (string \<times> string) list option" where
  "parse_update_expression s =
     (if take 4 s = ''SET '' then those (map parse_clause (split_clauses (drop 4 s))) else None)"

definition update_actions ::
  "string \<Rightarrow> (string \<times> string) list \<Rightarrow> item \<Rightarrow> (string \<times> attr) list option" where
  "update_actions expr names vals =
     (case parse_update_expression expr of
        None \<Rightarrow> None
      | Some clauses \<Rightarrow>
          (case those (map (\<lambda>(n, v). case (map_of names n, vals v) of
                                        (Some a, Some x) \<Rightarrow> Some (a, x)
                                      | _ \<Rightarrow> None) clauses) of
             None \<Rightarrow> None
           | Some sets \<Rightarrow>
               if distinct (map fst sets) \<and> ''userId'' \<notin> set (map fst sets)
                  \<and> ''fileId'' \<notin> set (map fst sets)
               then Some sets else None))"

text \<open>
  \<open>UpdateItem\<close> with \<open>ReturnValues: 'ALL_NEW'\<close>: the clauses are applied to the item
  under the key, or to a new item holding the key attributes when there is none, and
  the answer carries every attribute of the item as it is afterwards.
\<close>

definition ddb_updateItem ::
  "string \<times> string \<Rightarrow> string \<Rightarrow> (string \<times> string) list \<Rightarrow> item \<Rightarrow> item io" where
  "ddb_updateItem k expr names vals =
     send (UpdateItemCommand k expr)
       (\<lambda>w. case update_actions expr names vals of
               None \<Rightarrow> (Inl (Error ''ValidationException''), w)
             | Some sets \<Rightarrow>
                 let old = (case table w k of None \<Rightarrow> keyItem k | Some it \<Rightarrow> it);
                     new = fold (\<lambda>(a, x) it. it(a \<mapsto> x)) sets old
                 in (Inr new, w\<lparr>table := (table w)(k \<mapsto> new)\<rparr>))"


section \<open>The storage service\<close>

text \<open>
  The operations of \<open>StorageService\<close> on work items, on supporting documents, on the
  original and the packed content and on uploads, in the order of their dependencies.
  \<open>createUserIdHash\<close>, \<open>listWorkItems\<close> and the operations on analysis results and on
  generated templates are left out: nothing below is about them.
\<close>

subsection \<open>JavaScript helpers\<close>

text \<open>\<open>Array.prototype.join\<close>\<close>

fun array_join :: "string \<Rightarrow> string list \<Rightarrow> string" where
  "array_join sep [] = []"
| "array_join sep [x] = x"
| "array_join sep (x # y # ys) = x @ sep @ array_join sep (y # ys)"

text \<open>\<open>String.prototype.split\<close> with a string separator.\<close>

function js_split :: "string \<Rightarrow> string \<Rightarrow> string list" where
  "js_split sep s =
     (if sep = [] then map (\<lambda>c. [c]) s
      else if prefix sep s then [] # js_split sep (drop (length sep) s)
      else case s of
             [] \<Rightarrow> [[]]
           | c # cs \<Rightarrow> (case js_split sep cs of [] \<Rightarrow> [[c]] | x # xs \<Rightarrow> (c # x) # xs))"
  by pat_completeness auto
termination
  by (relation "measure (\<lambda>(sep, s). length s)") (auto simp: prefix_def)

declare js_split.simps [simp del]

text \<open>Reading an index of an array: \<open>undefined\<close> outside of it.\<close>

definition nth_opt :: "'a list \<Rightarrow> nat \<Rightarrow> 'a option" where
  "nth_opt xs n = (if n < length xs then Some (xs ! n) else None)"

text \<open>The decimal digits of a length, as a template literal prints a number.\<close>

fun string_of_nat :: "nat \<Rightarrow> string" where
  "string_of_nat n =
     (if n < 10 then [''0123456789'' ! n]
      else string_of_nat (n div 10) @ [''0123456789'' ! (n mod 10)])"

declare string_of_nat.simps [simp del]

text \<open>\<open>a || b\<close> on a string that may be \<open>undefined\<close>, and on an attribute of an item.\<close>

definition stringOr :: "string option \<Rightarrow> string \<Rightarrow> string" where
  "stringOr a d = (case a of None \<Rightarrow> d | Some s \<Rightarrow> if s = [] then d else s)"

definition attrOr :: "attr option \<Rightarrow> attr \<Rightarrow> attr" where
  "attrOr a d = (case a of None \<Rightarrow> d | Some x \<Rightarrow> if truthy a then x else d)"

subsection \<open>Work item records\<close>

text \<open>
  A partial update is the list of the entries of the object (\<open>Object.entries\<close>), each
  value being \<open>undefined\<close> (\<open>None\<close>) or a scalar. \<open>definedEntries\<close> keeps the entries
  that pass the test \<open>value !== undefined\<close> of the loop.
\<close>

definition definedEntries :: "(string \<times> attr option) list \<Rightarrow> (string \<times> attr) list" where
  "definedEntries updates =
     concat (map (\<lambda>(key, v). case v of None \<Rightarrow> [] | Some x \<Rightarrow> [(key, x)]) updates)"

definition updateWorkItem ::
  "env \<Rightarrow> string \<Rightarrow> string \<Rightarrow> (string \<times> attr option) list \<Rightarrow> item io" where
  "updateWorkItem env userId fileId updates =
     (if \<not> enabled env then io_throw (Error ''Storage is not enabled'')
      else
        let defined = definedEntries updates;
            updateExpr = map (\<lambda>(key, x). ''#'' @ key @ '' = :'' @ key) defined;
            exprAttrNames = map (\<lambda>(key, x). (''#'' @ key, key)) defined;
            exprAttrValues = map (\<lambda>(key, x). ('':'' @ key, x)) defined;
            updateExprStr = ''SET '' @ array_join '', '' updateExpr
        in io_catch
             (io_bind (io_lift (marshall exprAttrValues)) (\<lambda>values.
                ddb_updateItem (userId, fileId) updateExprStr exprAttrNames values))
             (\<lambda>error. io_throw (Error ''Failed to update work item'')))"

definition getWorkItem :: "env \<Rightarrow> string \<Rightarrow> string \<Rightarrow> item io" where
  "getWorkItem env userId fileId =
     (if \<not> enabled env then io_throw (Error ''Storage is not enabled'')
      else io_catch
        (io_bind (ddb_getItem (userId, fileId)) (\<lambda>result.
           case result of
             None \<Rightarrow> io_throw (Error ''Work item not found'')
           | Some it \<Rightarrow> io_return it))
        (\<lambda>error. io_throw (Error ''Failed to get work item'')))"

definition storeWorkItemInDynamoDB :: "(string \<times> attr) list \<Rightarrow> unit io" where
  "storeWorkItemInDynamoDB workItem =
     io_catch (io_bind (io_lift (marshall workItem)) ddb_putItem)
       (\<lambda>error. io_throw (Error ''Failed to store work item metadata''))"

definition deleteWorkItem :: "env \<Rightarrow> string \<Rightarrow> string \<Rightarrow> unit io" where
  "deleteWorkItem env userId fileId =
     (if \<not> enabled env then io_throw (Error ''Storage is not enabled'')
      else io_catch
        (io_bind (s3_listObjects (userId @ ''/'' @ fileId)) (\<lambda>listResult.
           io_bind (if listResult \<noteq> [] then s3_deleteObjects listResult else io_return ()) (\<lambda>_.
             ddb_deleteItem (userId, fileId))))
        (\<lambda>error. io_throw (Error ''Failed to delete work item'')))"

subsection \<open>Supporting documents\<close>

record SupportingDocument =
  sd_data :: bytes
  sd_contentType :: string
  sd_fileName :: attr



definition getSupportingDocument ::
  "env \<Rightarrow> string \<Rightarrow> string \<Rightarrow> string \<Rightarrow> SupportingDocument io" where
  "getSupportingDocument env userId mainFileId supportingDocId =
     (if \<not> enabled env then io_throw (Error ''Storage is not enabled'')
      else io_catch
        (io_bind (getWorkItem env userId mainFileId) (\<lambda>workItem.
           if \<not> truthy (workItem ''supportingDocumentId'')
              \<or> \<not> truthy (workItem ''supportingDocumentAdded'')
           then io_throw (Error ''No supporting document available for this work item'')
           else if workItem ''supportingDocumentId'' \<noteq> Some (A_S supportingDocId)
           then io_throw (Error ''Supporting document ID does not match the work item record'')
           else
             let supportingDocKey =
                   userId @ ''/'' @ mainFileId @ ''/supporting_documents/'' @ supportingDocId
             in io_bind (s3_getObject supportingDocKey) (\<lambda>result.
                  let contentType = stringOr (obj_contentType result) ''application/octet-stream'';
                      response = obj_body result
                  in io_return
                       \<lparr> sd_data = response,
                         sd_contentType = contentType,
                         sd_fileName =
                           attrOr (workItem ''supportingDocumentName'') (A_S ''supporting-document'') \<rparr>)))
        (\<lambda>error. io_throw (Error ''Failed to get supporting document'')))"

subsection \<open>Content\<close>

record OriginalContent =
  oc_data :: payload
  oc_contentType :: string

definition storeOriginalContent ::
  "env \<Rightarrow> string \<Rightarrow> string \<Rightarrow> payload \<Rightarrow> string \<Rightarrow> unit io" where
  "storeOriginalContent env userId fileId content fileType =
     (if \<not> enabled env then io_throw (Error ''Storage is not enabled'')
      else
        let s3Locations = getS3Locations userId fileId;
            normal = upload_done env (originalContent s3Locations) content (Some fileType)
        in io_catch
          (if isString content \<and> prefix ''image/'' fileType then
             (case content of
                StringData s \<Rightarrow>
                  let base64Data =
                        (case nth_opt (js_split '';base64,'' s) 1 of
                           None \<Rightarrow> s
                         | Some d \<Rightarrow> if d = [] then s else d);
                      buffer = base64Decode env base64Data
                  in upload_done env (originalContent s3Locations) (BufferData buffer) (Some fileType)
              | BufferData b \<Rightarrow> normal)
           else normal)
          (\<lambda>error. io_throw (Error ''Failed to store original content'')))"

definition storePackedContent :: "env \<Rightarrow> string \<Rightarrow> string \<Rightarrow> string \<Rightarrow> unit io" where
  "storePackedContent env userId fileId content =
     (if \<not> enabled env then io_throw (Error ''Storage is not enabled'')
      else
        let s3Locations = getS3Locations userId fileId
        in io_catch
          (upload_done env (packedContent s3Locations) (StringData content) (Some ''text/plain''))
          (\<lambda>error. io_throw (Error ''Failed to store packed content'')))"

definition getPackedContent :: "env \<Rightarrow> string \<Rightarrow> string \<Rightarrow> string io" where
  "getPackedContent env userId fileId =
     (if \<not> enabled env then io_throw (Error ''Storage is not enabled'')
      else
        let s3Locations = getS3Locations userId fileId
        in io_catch
          (io_bind (s3_getObject (packedContent s3Locations)) (\<lambda>result.
             io_return (utf8Decode env (obj_body result))))
          (\<lambda>error. io_throw (Error ''Failed to get packed content'')))"

definition getOriginalContent ::
  "env \<Rightarrow> string \<Rightarrow> string \<Rightarrow> bool \<Rightarrow> OriginalContent io" where
  "getOriginalContent env userId fileId forDownload =
     (if \<not> enabled env then io_throw (Error ''Storage is not enabled'')
      else
        let s3Locations = getS3Locations userId fileId
        in io_catch
          (io_bind (getWorkItem env userId fileId) (\<lambda>workItem.
             io_bind
               (if (workItem ''uploadMode'' = Some (A_S (modeValue env MULTIPLE_FILES))
                    \<or> workItem ''uploadMode'' = Some (A_S (modeValue env ZIP_FILE)))
                   \<and> \<not> forDownload
                then io_catch
                       (io_bind (getPackedContent env userId fileId) (\<lambda>packed.
                          io_return
                            (Some \<lparr> oc_data = StringData packed, oc_contentType = ''text/plain'' \<rparr>)))
                       (\<lambda>error. io_return None)
                else io_return None) (\<lambda>returned.
             case returned of
               Some r \<Rightarrow> io_return r
             | None \<Rightarrow>
                 io_bind (s3_getObject (originalContent s3Locations)) (\<lambda>result.
                   let contentType = stringOr (obj_contentType result) ''application/octet-stream'';
                       response = obj_body result
                   in if forDownload then
                        io_return \<lparr> oc_data = BufferData response, oc_contentType = contentType \<rparr>
                      else if prefix ''image/'' contentType then
                        io_return
                          \<lparr> oc_data =
                              StringData
                                (''data:'' @ contentType @ '';base64,'' @ base64Encode env response),
                            oc_contentType = contentType \<rparr>
                      else
                        io_return
                          \<lparr> oc_data = StringData (utf8Decode env response),
                            oc_contentType = contentType \<rparr>))))
          (\<lambda>error. io_throw (Error ''Failed to get original content'')))"


subsection \<open>Uploads\<close>

record UploadResult =
  ur_fileId :: string
  ur_tokenCount :: int
  ur_exceedsTokenLimit :: bool

definition handleZipFile :: "env \<Rightarrow> string \<Rightarrow> string \<Rightarrow> bytes \<Rightarrow> UploadResult io" where
  "handleZipFile env userId filename buffer =
     io_catch
       (io_bind (io_lift (processZipFile env buffer filename)) (\<lambda>packedProject.
          let fileId = createFileIdHash env (filename @ dateNow env);
              timestamp = isoNow env;
              workItem =
                   [(''userId'', A_S userId),
                    (''fileId'', A_S fileId),
                    (''fileName'', A_S filename),
                    (''fileType'', A_S ''application/zip''),
                    (''uploadDate'', A_S timestamp),
                    (''analysisStatus'', A_S ''NOT_STARTED''),
                    (''analysisProgress'', A_N 0),
                    (''iacGenerationStatus'', A_S ''NOT_STARTED''),
                    (''iacGenerationProgress'', A_N 0),
                    (''s3Prefix'', A_S (userId @ ''/'' @ fileId)),
                    (''lastModified'', A_S timestamp),
                    (''uploadMode'', A_S (modeValue env ZIP_FILE)),
                    (''tokenCount'', A_N (pp_tokenCount packedProject)),
                    (''exceedsTokenLimit'', A_BOOL (pp_exceedsTokenLimit packedProject))]
          in io_bind (storeWorkItemInDynamoDB workItem) (\<lambda>_.
             io_bind (storeOriginalContent env userId fileId (BufferData buffer) ''application/zip'') (\<lambda>_.
             io_bind (storePackedContent env userId fileId (pp_packedContent packedProject)) (\<lambda>_.
             io_return
               \<lparr> ur_fileId = fileId,
                 ur_tokenCount = pp_tokenCount packedProject,
                 ur_exceedsTokenLimit = pp_exceedsTokenLimit packedProject \<rparr>)))))
       (\<lambda>error. io_throw (Error (''Failed to process zip file: '' @ message error)))"

text \<open>
  \<open>files[0].filename\<close> on an empty array is a \<open>TypeError\<close>, which the \<open>catch\<close> of
  \<open>handleMultipleFiles\<close> wraps as it wraps every other error. The copy \<open>filesWithType\<close>
  of the files only renames \<open>mimetype\<close> to \<open>type\<close>: the packer is given the files.
\<close>

definition handleMultipleFiles :: "env \<Rightarrow> string \<Rightarrow> UploadedFile list \<Rightarrow> UploadResult io" where
  "handleMultipleFiles env userId files =
     io_catch
       (io_bind (io_lift (createZipFromFiles env files)) (\<lambda>zipBuffer.
        io_bind (io_lift (processMultipleFiles env files)) (\<lambda>packedProject.
          case files of
            [] \<Rightarrow>
              io_throw
                (Error (''Cannot read properties of undefined (reading '' @ [CHR 0x27]
                   @ ''filename'' @ [CHR 0x27] @ '')''))
          | file0 # _ \<Rightarrow>
              let fileId = createFileIdHash env (uf_filename file0 @ dateNow env);
                  timestamp = isoNow env;
                  combinedFilename =
                    (if length files < 2 then array_join ''_'' (map uf_filename files)
                     else uf_filename file0 @ ''_and_'' @ string_of_nat (length files - 1)
                            @ ''_more_files'');
                  workItem =
                   [(''userId'', A_S userId),
                    (''fileId'', A_S fileId),
                    (''fileName'', A_S combinedFilename),
                    (''fileType'', A_S ''application/multiple-files''),
                    (''uploadDate'', A_S timestamp),
                    (''analysisStatus'', A_S ''NOT_STARTED''),
                    (''analysisProgress'', A_N 0),
                    (''iacGenerationStatus'', A_S ''NOT_STARTED''),
                    (''iacGenerationProgress'', A_N 0),
                    (''s3Prefix'', A_S (userId @ ''/'' @ fileId)),
                    (''lastModified'', A_S timestamp),
                    (''uploadMode'', A_S (modeValue env MULTIPLE_FILES)),
                    (''tokenCount'', A_N (pp_tokenCount packedProject)),
                    (''exceedsTokenLimit'', A_BOOL (pp_exceedsTokenLimit packedProject))]
              in io_bind (storeWorkItemInDynamoDB workItem) (\<lambda>_.
                 io_bind (storeOriginalContent env userId fileId (BufferData zipBuffer) ''application/zip'') (\<lambda>_.
                 io_bind (storePackedContent env userId fileId (pp_packedContent packedProject)) (\<lambda>_.
                 io_return
                   \<lparr> ur_fileId = fileId,
                     ur_tokenCount = pp_tokenCount packedProject,
                     ur_exceedsTokenLimit = pp_exceedsTokenLimit packedProject \<rparr>))))))
       (\<lambda>error. io_throw (Error (''Failed to process multiple files: '' @ message error)))"



section \<open>The content packer\<close>

text \<open>
  Modelled from the spec: the class \<open>ProjectPacker\<close> (\<open>shared/utils/project-packer\<close>) is
  not part of the sources. The spec says of it that it turns an upload into one packed
  text and a token estimate of that text, and that \<open>exceedsTokenLimit\<close> is
  \<open>tokenCount > configuredLimit\<close>. How the text is packed and how the tokens are
  estimated is left open: \<open>estimate\<close> and \<open>limit\<close> are parameters.
\<close>

definition spec_packedProject :: "(string \<Rightarrow> int) \<Rightarrow> int \<Rightarrow> string \<Rightarrow> PackedProject" where
  "spec_packedProject estimate limit packed =
     \<lparr> pp_packedContent = packed,
       pp_tokenCount = estimate packed,
       pp_exceedsTokenLimit = (estimate packed > limit) \<rparr>"

text \<open>
  Modelled from the spec: \<open>processZipFile\<close> of the absent \<open>ProjectPacker\<close>. The archive
  is unpacked and concatenated into one text (\<open>pack\<close>, which fails on a corrupt archive,
  on an empty one and on an entry that is too large), and the text is measured.
\<close>

definition spec_processZipFile ::
  "(bytes \<Rightarrow> string \<Rightarrow> error + string) \<Rightarrow> (string \<Rightarrow> int) \<Rightarrow> int \<Rightarrow> bytes \<Rightarrow> string
     \<Rightarrow> error + PackedProject" where
  "spec_processZipFile pack estimate limit buffer filename =
     (case pack buffer filename of
        Inl e \<Rightarrow> Inl e
      | Inr packed \<Rightarrow> Inr (spec_packedProject estimate limit packed))"

text \<open>
  Modelled from the spec: \<open>processMultipleFiles\<close> of the absent \<open>ProjectPacker\<close>. The
  files are concatenated into one text (\<open>packFiles\<close>, which fails on an empty set and on
  a file that is too large), and the text is measured.
\<close>

definition spec_processMultipleFiles ::
  "(UploadedFile list \<Rightarrow> error + string) \<Rightarrow> (string \<Rightarrow> int) \<Rightarrow> int \<Rightarrow> UploadedFile list
     \<Rightarrow> error + PackedProject" where
  "spec_processMultipleFiles packFiles estimate limit files =
     (case packFiles files of
        Inl e \<Rightarrow> Inl e
      | Inr packed \<Rightarrow> Inr (spec_packedProject estimate limit packed))"



section \<open>An environment for the examples\<close>

text \<open>
  The examples below run the service in one concrete environment. Its encodings agree
  with those of Node.js on ASCII text (UTF-8) and on padded text of the standard
  alphabet (base64); its digest is SHA-256 on the five inputs the examples hash and
  the empty string elsewhere; its JSON printer does not escape; its packer takes the
  bytes it is given for the text they spell, estimates a token for every four
  characters and has a limit of two tokens.
\<close>

definition ascii_encode :: "string \<Rightarrow> bytes" where
  "ascii_encode s = map of_char s"

definition ascii_decode :: "bytes \<Rightarrow> string" where
  "ascii_decode b = map (\<lambda>x. char_of (unat x)) b"

definition b64_alphabet :: string where
  "b64_alphabet = ''ABCDEFGHIJKLMNOPQRSTUVWXYZabcdefghijklmnopqrstuvwxyz0123456789+/''"

fun b64_encode :: "nat list \<Rightarrow> string" where
  "b64_encode (a # b # c # r) =
     [b64_alphabet ! (a div 4), b64_alphabet ! (a mod 4 * 16 + b div 16),
      b64_alphabet ! (b mod 16 * 4 + c div 64), b64_alphabet ! (c mod 64)] @ b64_encode r"
| "b64_encode [a, b] =
     [b64_alphabet ! (a div 4), b64_alphabet ! (a mod 4 * 16 + b div 16),
      b64_alphabet ! (b mod 16 * 4), CHR ''='']"
| "b64_encode [a] =
     [b64_alphabet ! (a div 4), b64_alphabet ! (a mod 4 * 16), CHR ''='', CHR ''='']"
| "b64_encode [] = []"

fun b64_position :: "nat \<Rightarrow> string \<Rightarrow> char \<Rightarrow> nat option" where
  "b64_position n [] c = None"
| "b64_position n (x # xs) c = (if x = c then Some n else b64_position (n + 1) xs c)"

fun b64_groups :: "nat list \<Rightarrow> nat list" where
  "b64_groups (a # b # c # d # r) =
     [a * 4 + b div 16, b mod 16 * 16 + c div 4, c mod 4 * 64 + d] @ b64_groups r"
| "b64_groups [a, b, c] = [a * 4 + b div 16, b mod 16 * 16 + c div 4]"
| "b64_groups [a, b] = [a * 4 + b div 16]"
| "b64_groups [a] = []"
| "b64_groups [] = []"

definition b64_decode :: "string \<Rightarrow> bytes" where
  "b64_decode s =
     map of_nat
       (b64_groups
          (concat (map (\<lambda>c. case b64_position 0 b64_alphabet c of None \<Rightarrow> [] | Some v \<Rightarrow> [v])
             (takeWhile (\<lambda>c. c \<noteq> CHR ''='') s))))"

definition example_user :: string where
  "example_user = ''ff8d9819fc0e12bf0d24892e45987e249a28dce836a85cad60e28eaaa8c6d976''"

definition example_file :: string where
  "example_file = ''f755d24fa3249e79a80c44c036fcefe2565ce052d5750ceb3800b67b5fbb144b''"

definition example_zip_file :: string where
  "example_zip_file = ''8d4688449830ee1a5cab880e600b5dc211bf9121c65f147054d2ea765b14202e''"

definition example_tf_file :: string where
  "example_tf_file = ''40bfd3295ad7a9b7a4b45e7dd0773977e9be1d566025f8e027d18e0f0a2bfc95''"

definition example_png_file :: string where
  "example_png_file = ''7fdc251789bcce26350e313751fef2c94a281e5f793ca886ae1c5c1b5de29557''"

definition example_doc :: string where
  "example_doc = ''6268b58793de598580a693c9df02dc8cbfe594d4281a3c3d966f6c59739ce2cc''"

definition example_digest :: "string \<Rightarrow> string" where
  "example_digest s =
     (if s = ''main.tf1700000000000'' then example_file
      else if s = ''project.zip1700000000000'' then example_zip_file
      else if s = ''a.tf1700000000000'' then example_tf_file
      else if s = ''diagram.png1700000000000'' then example_png_file
      else if s = ''supporting_'' @ example_file @ ''_notes.txt_1700000000000'' then example_doc
      else [])"

fun example_json_value :: "attr \<Rightarrow> string" where
  "example_json_value (A_S s) = [CHR 0x22] @ s @ [CHR 0x22]"
| "example_json_value (A_N n) =
     (if n < 0 then ''-'' @ string_of_nat (nat (- n)) else string_of_nat (nat n))"
| "example_json_value (A_BOOL b) = (if b then ''true'' else ''false'')"
| "example_json_value A_NULL = ''null''"

definition example_json :: "(string \<times> attr) list \<Rightarrow> string" where
  "example_json obj =
     ''{'' @ array_join '','' (map (\<lambda>(k, v). [CHR 0x22] @ k @ [CHR 0x22] @ '':'' @ example_json_value v) obj)
       @ ''}''"

fun example_modeValue :: "FileUploadMode \<Rightarrow> string" where
  "example_modeValue SINGLE_FILE = ''single_file''"
| "example_modeValue MULTIPLE_FILES = ''multiple_files''"
| "example_modeValue ZIP_FILE = ''zip_file''"

definition example_pack :: "bytes \<Rightarrow> string \<Rightarrow> error + string" where
  "example_pack buffer filename =
     (if buffer = [] then Inl (Error ''No files found in zip'') else Inr (ascii_decode buffer))"

definition example_packFiles :: "UploadedFile list \<Rightarrow> error + string" where
  "example_packFiles files =
     (if files = [] then Inl (Error ''No files provided'')
      else Inr (concat (map (\<lambda>f. ascii_decode (uf_buffer f)) files)))"

definition example_estimate :: "string \<Rightarrow> int" where
  "example_estimate s = int (length s) div 4"

definition example_env :: env where
  "example_env =
     \<lparr> enabled = True,
       dateNow = ''1700000000000'',
       isoNow = ''2023-11-14T22:13:20.000Z'',
       sha256Hex = example_digest,
       utf8Encode = ascii_encode,
       utf8Decode = ascii_decode,
       base64Encode = (\<lambda>b. b64_encode (map unat b)),
       base64Decode = b64_decode,
       jsonStringify = example_json,
       modeValue = example_modeValue,
       processZipFile = spec_processZipFile example_pack example_estimate 2,
       createZipFromFiles = (\<lambda>files. Inr (concat (map uf_buffer files))),
       processMultipleFiles = spec_processMultipleFiles example_packFiles example_estimate 2 \<rparr>"

text \<open>The stores with nothing in them, no request sent and no outage to come.\<close>

definition empty_world :: world where
  "empty_world =
     \<lparr> objects = [], table = (\<lambda>k. None), requests = [], outage = (\<lambda>n. False) \<rparr>"

text \<open>A work item as \<open>createWorkItem\<close> records it, the stores that hold it, and a partial update.\<close>

definition example_item :: "(string \<times> attr) list" where
  "example_item =
     [(''userId'', A_S example_user),
      (''fileId'', A_S example_file),
      (''fileName'', A_S ''main.tf''),
      (''fileType'', A_S ''text/plain''),
      (''uploadDate'', A_S ''2023-11-14T22:13:20.000Z''),
      (''analysisStatus'', A_S ''NOT_STARTED''),
      (''analysisProgress'', A_N 0),
      (''iacGenerationStatus'', A_S ''NOT_STARTED''),
      (''iacGenerationProgress'', A_N 0),
      (''s3Prefix'', A_S (example_user @ ''/'' @ example_file)),
      (''lastModified'', A_S ''2023-11-14T22:13:20.000Z''),
      (''uploadMode'', A_S ''single_file'')]"

definition example_world :: world where
  "example_world =
     \<lparr> objects =
         [(example_user @ ''/'' @ example_file @ ''/original_content'',
           \<lparr> obj_body = ascii_encode ''resource a'', obj_contentType = Some ''text/plain'' \<rparr>)],
       table = (\<lambda>k. if k = (example_user, example_file) then Some (map_of example_item) else None),
       requests = [],
       outage = (\<lambda>n. False) \<rparr>"

definition example_updates :: "(string \<times> attr option) list" where
  "example_updates =
     [(''analysisStatus'', Some (A_S ''IN_PROGRESS'')),
      (''analysisProgress'', Some (A_N 40)),
      (''iacGeneratedFileType'', None)]"

text \<open>
  The stores after the upload of an archive whose packed text is \<open>resource a\<close>, and the
  same stores once the packed text has been removed from the bucket.
\<close>

definition zip_item :: "(string \<times> attr) list" where
  "zip_item =
     [(''userId'', A_S example_user),
      (''fileId'', A_S example_zip_file),
      (''fileName'', A_S ''project.zip''),
      (''fileType'', A_S ''application/zip''),
      (''uploadDate'', A_S ''2023-11-14T22:13:20.000Z''),
      (''analysisStatus'', A_S ''NOT_STARTED''),
      (''analysisProgress'', A_N 0),
      (''iacGenerationStatus'', A_S ''NOT_STARTED''),
      (''iacGenerationProgress'', A_N 0),
      (''s3Prefix'', A_S (example_user @ ''/'' @ example_zip_file)),
      (''lastModified'', A_S ''2023-11-14T22:13:20.000Z''),
      (''uploadMode'', A_S ''zip_file''),
      (''tokenCount'', A_N 2),
      (''exceedsTokenLimit'', A_BOOL False)]"

definition zip_world :: world where
  "zip_world =
     \<lparr> objects =
         [(example_user @ ''/'' @ example_zip_file @ ''/packed_content'',
           \<lparr> obj_body = ascii_encode ''resource a'', obj_contentType = Some ''text/plain'' \<rparr>),
          (example_user @ ''/'' @ example_zip_file @ ''/original_content'',
           \<lparr> obj_body = ascii_encode ''resource a'', obj_contentType = Some ''application/zip'' \<rparr>)],
       table = (\<lambda>k. if k = (example_user, example_zip_file) then Some (map_of zip_item) else None),
       requests = [],
       outage = (\<lambda>n. False) \<rparr>"

definition zip_world_unpacked :: world where
  "zip_world_unpacked =
     zip_world
       \<lparr> objects :=
           [(example_user @ ''/'' @ example_zip_file @ ''/original_content'',
             \<lparr> obj_body = ascii_encode ''resource a'', obj_contentType = Some ''application/zip'' \<rparr>)] \<rparr>"

text \<open>The stores that hold an architecture diagram: four bytes of an image.\<close>

definition png_item :: "(string \<times> attr) list" where
  "png_item =
     [(''userId'', A_S example_user),
      (''fileId'', A_S example_png_file),
      (''fileName'', A_S ''diagram.png''),
      (''fileType'', A_S ''image/png''),
      (''uploadDate'', A_S ''2023-11-14T22:13:20.000Z''),
      (''analysisStatus'', A_S ''NOT_STARTED''),
      (''analysisProgress'', A_N 0),
      (''iacGenerationStatus'', A_S ''NOT_STARTED''),
      (''iacGenerationProgress'', A_N 0),
      (''s3Prefix'', A_S (example_user @ ''/'' @ example_png_file)),
      (''lastModified'', A_S ''2023-11-14T22:13:20.000Z''),
      (''uploadMode'', A_S ''single_file'')]"

definition png_world :: world where
  "png_world =
     \<lparr> objects =
         [(example_user @ ''/'' @ example_png_file @ ''/original_content'',
           \<lparr> obj_body = [137, 80, 78, 71], obj_contentType = Some ''image/png'' \<rparr>)],
       table = (\<lambda>k. if k = (example_user, example_png_file) then Some (map_of png_item) else None),
       requests = [],
       outage = (\<lambda>n. False) \<rparr>"

text \<open>
  The stores of \<open>example_world\<close> after a supporting document has been linked to the
  work item, and the same stores once the blob of the document has been removed.
\<close>

definition doc_world :: world where
  "doc_world =
     \<lparr> objects =
         [(example_user @ ''/'' @ example_file @ ''/supporting_documents/'' @ example_doc,
           \<lparr> obj_body = ascii_encode ''notes'', obj_contentType = Some ''text/plain'' \<rparr>),
          (example_user @ ''/'' @ example_file @ ''/original_content'',
           \<lparr> obj_body = ascii_encode ''resource a'', obj_contentType = Some ''text/plain'' \<rparr>)],
       table =
         (\<lambda>k. if k = (example_user, example_file)
              then Some (map_of example_item
                     ++ map_of
                          [(''supportingDocumentId'', A_S example_doc),
                           (''supportingDocumentAdded'', A_BOOL True),
                           (''supportingDocumentDescription'', A_S ''design notes''),
                           (''supportingDocumentName'', A_S ''notes.txt''),
                           (''supportingDocumentType'', A_S ''text/plain''),
                           (''lastModified'', A_S ''2023-11-14T22:13:20.000Z'')])
              else None),
       requests = [],
       outage = (\<lambda>n. False) \<rparr>"

definition doc_world_without_blob :: world where
  "doc_world_without_blob =
     doc_world
       \<lparr> objects :=
           [(example_user @ ''/'' @ example_file @ ''/original_content'',
             \<lparr> obj_body = ascii_encode ''resource a'', obj_contentType = Some ''text/plain'' \<rparr>)] \<rparr>"


definition example_files :: "UploadedFile list" where
  "example_files =
     [\<lparr> uf_filename = ''a.tf'', uf_buffer = ascii_encode ''resource a'', uf_mimetype = ''text/plain'' \<rparr>,
      \<lparr> uf_filename = ''b.tf'', uf_buffer = ascii_encode ''resource b'', uf_mimetype = ''text/plain'' \<rparr>]"


section \<open>Properties of the key layout\<close>

lemma hex_digit_not_slash: "is_hex_digit c \<Longrightarrow> c \<noteq> CHR ''/''"
  by (auto simp: is_hex_digit_def)

lemma sha256_hex_no_slash: "is_sha256_hex s \<Longrightarrow> CHR ''/'' \<notin> set s"
  by (auto simp: is_sha256_hex_def list_all_iff dest: hex_digit_not_slash)

text \<open>A separator that occurs in neither head splits a string in one way only.\<close>

lemma split_at_separator:
  "c \<notin> set xs \<Longrightarrow> c \<notin> set ys \<Longrightarrow> xs @ c # r = ys @ c # s \<Longrightarrow> xs = ys \<and> r = s"
proof (induction xs arbitrary: ys)
  case Nil
  then show ?case by (cases ys) simp_all
next
  case (Cons x xs)
  show ?case
  proof (cases ys)
    case Nil
    with Cons.prems show ?thesis by simp
  next
    case (Cons y ys')
    with Cons.prems have "x = y" "c \<notin> set xs" "c \<notin> set ys'" "xs @ c # r = ys' @ c # s"
      by simp_all
    with Cons.IH [of ys'] Cons show ?thesis by simp
  qed
qed

text \<open>
  A key below the root of one pair never starts with the root of another pair, when
  the user identifiers hold no separator and the file identifiers have one length.
\<close>

lemma root_not_prefix_of_foreign_key:
  assumes "CHR ''/'' \<notin> set u1" "CHR ''/'' \<notin> set u2" "length f1 = length f2"
    and "(u1, f1) \<noteq> (u2, f2)"
  shows "\<not> prefix (s3Prefix u2 f2) (s3Prefix u1 f1 @ rest)"
proof
  assume "prefix (s3Prefix u2 f2) (s3Prefix u1 f1 @ rest)"
  then obtain z where z: "s3Prefix u1 f1 @ rest = s3Prefix u2 f2 @ z"
    by (rule prefixE)
  then have eq: "u1 @ CHR ''/'' # (f1 @ rest) = u2 @ CHR ''/'' # (f2 @ z)"
    by (simp add: s3Prefix_def)
  from split_at_separator [OF assms(1,2) eq] have "u1 = u2" and "f1 @ rest = f2 @ z"
    by simp_all
  with assms(3) have "u1 = u2" and "f1 = f2" by simp_all
  with assms(4) show False by simp
qed

lemma location_keys_below_root:
  "k \<in> set (location_keys (getS3Locations u f)) \<Longrightarrow> \<exists>rest. k = s3Prefix u f @ rest"
  by (auto simp: location_keys_def getS3Locations_def s3Prefix_def Let_def)

text \<open>
  Without the shape of the identifiers neither property holds: a separator inside an
  identifier moves the border between the two, and a file identifier that extends
  another one lies below its root.
\<close>

lemma getS3Locations_needs_digests:
  "getS3Locations ''a/b'' ''c'' = getS3Locations ''a'' ''b/c''
   \<and> prefix (s3Prefix ''u'' ''ab'') (packedContent (getS3Locations ''u'' ''abc''))"
  by (simp add: getS3Locations_def s3Prefix_def)

text \<open>
  C1. For two distinct pairs of identifiers as the service produces them (SHA-256
  digests in hexadecimal), \<open>getS3Locations\<close> gives equal results on equal inputs, the
  two sets of keys share no key, and no key of one pair lies below the storage root of
  the other pair; nor does any other key that starts with the root of one pair (the key
  of a supporting document, of a generated template) start with the root of the other.
\<close>

theorem getS3Locations_injective:
  assumes "is_sha256_hex u1" "is_sha256_hex f1" "is_sha256_hex u2" "is_sha256_hex f2"
    and "(u1, f1) \<noteq> (u2, f2)"
  shows "(u1 = u1' \<and> f1 = f1' \<longrightarrow> getS3Locations u1 f1 = getS3Locations u1' f1')
    \<and> set (location_keys (getS3Locations u1 f1)) \<inter> set (location_keys (getS3Locations u2 f2)) = {}
    \<and> (\<forall>k \<in> set (location_keys (getS3Locations u1 f1)). \<not> prefix (s3Prefix u2 f2) k)
    \<and> (\<forall>k \<in> set (location_keys (getS3Locations u2 f2)). \<not> prefix (s3Prefix u1 f1) k)
    \<and> (\<forall>rest. \<not> prefix (s3Prefix u2 f2) (s3Prefix u1 f1 @ rest))
    \<and> (\<forall>rest. \<not> prefix (s3Prefix u1 f1) (s3Prefix u2 f2 @ rest))"
proof -
  have len: "length f1 = length f2"
    using assms(2,4) by (simp add: is_sha256_hex_def)
  have ns: "CHR ''/'' \<notin> set u1" "CHR ''/'' \<notin> set u2"
    using assms(1,3) by (simp_all add: sha256_hex_no_slash)
  have p12: "\<not> prefix (s3Prefix u2 f2) k"
    if "k \<in> set (location_keys (getS3Locations u1 f1))" for k
    using that root_not_prefix_of_foreign_key [OF ns len assms(5)]
    by (auto dest: location_keys_below_root)
  have p21: "\<not> prefix (s3Prefix u1 f1) k"
    if "k \<in> set (location_keys (getS3Locations u2 f2))" for k
  proof -
    have "(u2, f2) \<noteq> (u1, f1)" using assms(5) by auto
    from root_not_prefix_of_foreign_key [OF ns(2) ns(1) len [symmetric] this] that
    show ?thesis by (auto dest: location_keys_below_root)
  qed
  have disj: "set (location_keys (getS3Locations u1 f1))
      \<inter> set (location_keys (getS3Locations u2 f2)) = {}"
  proof (rule ccontr)
    assume "\<not> ?thesis"
    then obtain k where k1: "k \<in> set (location_keys (getS3Locations u1 f1))"
      and k2: "k \<in> set (location_keys (getS3Locations u2 f2))" by auto
    from k2 obtain rest where "k = s3Prefix u2 f2 @ rest"
      by (auto dest: location_keys_below_root)
    then have "prefix (s3Prefix u2 f2) k" by simp
    with p12 [OF k1] show False by simp
  qed
  have ne': "(u2, f2) \<noteq> (u1, f1)" using assms(5) by auto
  have r12: "\<not> prefix (s3Prefix u2 f2) (s3Prefix u1 f1 @ rest)" for rest
    by (rule root_not_prefix_of_foreign_key [OF ns len assms(5)])
  have r21: "\<not> prefix (s3Prefix u1 f1) (s3Prefix u2 f2 @ rest)" for rest
    by (rule root_not_prefix_of_foreign_key [OF ns(2) ns(1) len [symmetric] ne'])
  show ?thesis using p12 p21 disj r12 r21 by simp
qed

theorem getS3Locations_injective_witness:
  "is_sha256_hex example_user \<and> is_sha256_hex example_file \<and> is_sha256_hex example_zip_file
   \<and> example_file \<noteq> example_zip_file
   \<and> set (location_keys (getS3Locations example_user example_file))
      \<inter> set (location_keys (getS3Locations example_user example_zip_file)) = {}
   \<and> \<not> prefix (s3Prefix example_user example_zip_file)
        (packedContent (getS3Locations example_user example_file))"
proof -
  have u: "is_sha256_hex example_user"
    by (simp add: is_sha256_hex_def is_hex_digit_def example_user_def)
  have f: "is_sha256_hex example_file"
    by (simp add: is_sha256_hex_def is_hex_digit_def example_file_def)
  have g: "is_sha256_hex example_zip_file"
    by (simp add: is_sha256_hex_def is_hex_digit_def example_zip_file_def)
  have ne: "example_file \<noteq> example_zip_file"
    by (simp add: example_file_def example_zip_file_def)
  then have ne': "(example_user, example_file) \<noteq> (example_user, example_zip_file)"
    by simp
  have k: "packedContent (getS3Locations example_user example_file)
      \<in> set (location_keys (getS3Locations example_user example_file))"
    by (simp add: location_keys_def)
  note main = getS3Locations_injective [OF u f u g ne']
  from main have d: "set (location_keys (getS3Locations example_user example_file))
      \<inter> set (location_keys (getS3Locations example_user example_zip_file)) = {}"
    by (rule conjunct1 [OF conjunct2])
  from main have "\<forall>k \<in> set (location_keys (getS3Locations example_user example_file)).
      \<not> prefix (s3Prefix example_user example_zip_file) k"
    by (rule conjunct1 [OF conjunct2 [OF conjunct2]])
  with k have p: "\<not> prefix (s3Prefix example_user example_zip_file)
      (packedContent (getS3Locations example_user example_file))"
    by (rule bspec [rotated])
  from u f g ne d p show ?thesis by (intro conjI)
qed


section \<open>Requests that are served and requests that are not\<close>

lemma send_served:
  "\<not> outage w (length (requests w)) \<Longrightarrow> send r act w = act (w\<lparr>requests := requests w @ [r]\<rparr>)"
  by (simp add: send_def Let_def)

lemma send_refused:
  "outage w (length (requests w)) \<Longrightarrow>
   send r act w = (Inl (Error ''ServiceUnavailable''), w\<lparr>requests := requests w @ [r]\<rparr>)"
  by (simp add: send_def Let_def)

lemma marshall_ok:
  "list_all (\<lambda>(key, v). marshallable v) obj \<Longrightarrow> marshall obj = Inr (map_of obj)"
  by (simp add: marshall_def)

lemma io_bind_lift_Inr: "io_bind (io_lift (Inr x)) f = f x"
  by (simp add: io_bind_def io_lift_def)

lemma io_bind_lift_Inl: "io_bind (io_lift (Inl e)) f = io_throw e"
  by (simp add: io_bind_def io_lift_def io_throw_def)


section \<open>Partial updates of a work item\<close>

subsection \<open>The update expression is read back as it was built\<close>

lemma split_clauses_nonempty: "split_clauses s \<noteq> []"
  by (induction s) (auto split: list.splits)

lemma split_clauses_no_comma:
  "CHR '','' \<notin> set xs \<Longrightarrow>
   split_clauses (xs @ ys) = (case split_clauses ys of [] \<Rightarrow> [xs] | y # yss \<Rightarrow> (xs @ y) # yss)"
proof (induction xs)
  case Nil
  then show ?case using split_clauses_nonempty [of ys] by (simp split: list.splits)
next
  case (Cons x xs)
  then show ?case using split_clauses_nonempty [of ys] by (simp split: list.splits)
qed

lemma split_clauses_single: "CHR '','' \<notin> set xs \<Longrightarrow> split_clauses xs = [xs]"
  using split_clauses_no_comma [of xs "[]"] by simp

lemma split_clauses_separator:
  "CHR '','' \<notin> set xs \<Longrightarrow> split_clauses (xs @ '', '' @ ys) = xs # split_clauses ys"
proof -
  assume a: "CHR '','' \<notin> set xs"
  obtain y yss where y: "split_clauses ys = y # yss"
    using split_clauses_nonempty [of ys] by (cases "split_clauses ys") auto
  have "split_clauses ('', '' @ ys) = [] # y # yss"
    using y by simp
  with a show ?thesis
    using split_clauses_no_comma [of xs "'', '' @ ys"] y by simp
qed


lemma name_char_not_special:
  "is_name_char c \<Longrightarrow> c \<noteq> CHR '','' \<and> c \<noteq> CHR '' '' \<and> c \<noteq> CHR ''#'' \<and> c \<noteq> CHR '':'' \<and> c \<noteq> CHR ''=''"
  by (auto simp: is_name_char_def)

lemma space_not_name_char: "\<not> is_name_char (CHR '' '')"
  by (simp add: is_name_char_def)

lemma valid_name_no_comma: "valid_placeholder_name k \<Longrightarrow> CHR '','' \<notin> set k"
  by (auto simp: valid_placeholder_name_def list_all_iff dest: name_char_not_special)

lemma clause_no_comma:
  "valid_placeholder_name k \<Longrightarrow> CHR '','' \<notin> set (''#'' @ k @ '' = :'' @ k)"
  by (simp add: valid_name_no_comma)

lemma takeWhile_name_chars:
  "list_all is_name_char k \<Longrightarrow> takeWhile is_name_char (k @ CHR '' '' # r) = k"
  by (simp add: takeWhile_append2 list_all_iff space_not_name_char)

lemma dropWhile_name_chars:
  "list_all is_name_char k \<Longrightarrow> dropWhile is_name_char (k @ CHR '' '' # r) = CHR '' '' # r"
  by (simp add: dropWhile_append2 list_all_iff space_not_name_char)

lemma parse_clause_of_key:
  assumes "valid_placeholder_name k"
  shows "parse_clause (''#'' @ k @ '' = :'' @ k) = Some (''#'' @ k, '':'' @ k)"
  using assms
  by (simp add: parse_clause_def valid_placeholder_name_def takeWhile_name_chars
      dropWhile_name_chars Let_def)

lemma split_join_clauses:
  assumes "ks \<noteq> []" "\<forall>k \<in> set ks. valid_placeholder_name k"
  shows "split_clauses (array_join '', '' (map (\<lambda>k. ''#'' @ k @ '' = :'' @ k) ks))
       = map (\<lambda>k. ''#'' @ k @ '' = :'' @ k) ks"
  using assms
proof (induction ks)
  case Nil
  then show ?case by simp
next
  case (Cons x ks)
  then have nc: "CHR '','' \<notin> set (''#'' @ x @ '' = :'' @ x)"
    by (simp add: valid_name_no_comma)
  show ?case
  proof (cases ks)
    case Nil
    then show ?thesis
      using split_clauses_single [OF nc] by simp
  next
    case (Cons y ys)
    with Cons.IH Cons.prems
    have ih: "split_clauses (array_join '', '' (map (\<lambda>k. ''#'' @ k @ '' = :'' @ k) ks))
       = map (\<lambda>k. ''#'' @ k @ '' = :'' @ k) ks"
      by simp
    have "array_join '', '' (map (\<lambda>k. ''#'' @ k @ '' = :'' @ k) (x # ks))
        = (''#'' @ x @ '' = :'' @ x) @ '', ''
            @ array_join '', '' (map (\<lambda>k. ''#'' @ k @ '' = :'' @ k) ks)"
      using Cons by simp
    then show ?thesis
      using split_clauses_separator [OF nc,
          of "array_join '', '' (map (\<lambda>k. ''#'' @ k @ '' = :'' @ k) ks)"] ih
      by simp
  qed
qed

lemma those_parse_clauses:
  "\<forall>k \<in> set ks. valid_placeholder_name k \<Longrightarrow>
   those (map parse_clause (map (\<lambda>k. ''#'' @ k @ '' = :'' @ k) ks))
     = Some (map (\<lambda>k. (''#'' @ k, '':'' @ k)) ks)"
  by (induction ks) (simp_all add: parse_clause_of_key del: append.simps)

lemma parse_built_expression:
  assumes "ks \<noteq> []" "\<forall>k \<in> set ks. valid_placeholder_name k"
  shows "parse_update_expression
           (''SET '' @ array_join '', '' (map (\<lambda>k. ''#'' @ k @ '' = :'' @ k) ks))
       = Some (map (\<lambda>k. (''#'' @ k, '':'' @ k)) ks)"
proof -
  have "parse_update_expression
           (''SET '' @ array_join '', '' (map (\<lambda>k. ''#'' @ k @ '' = :'' @ k) ks))
      = those (map parse_clause
          (split_clauses (array_join '', '' (map (\<lambda>k. ''#'' @ k @ '' = :'' @ k) ks))))"
    by (simp add: parse_update_expression_def)
  then show ?thesis
    using split_join_clauses [OF assms] those_parse_clauses [OF assms(2)] by simp
qed


lemma those_map_Some:
  "(\<And>x. x \<in> set xs \<Longrightarrow> f x = Some (g x)) \<Longrightarrow> those (map f xs) = Some (map g xs)"
  by (induction xs) simp_all

lemma map_of_names:
  "(k, x) \<in> set defined \<Longrightarrow>
   map_of (map (\<lambda>(key, x). (''#'' @ key, key)) defined) (''#'' @ k) = Some k"
  by (induction defined) auto

lemma map_of_values:
  "distinct (map fst defined) \<Longrightarrow> (k, x) \<in> set defined \<Longrightarrow>
   map_of (map (\<lambda>(key, x). ('':'' @ key, x)) defined) ('':'' @ k) = Some x"
  by (induction defined) (auto simp: rev_image_eqI)

lemma update_actions_built:
  assumes "defined \<noteq> []" "distinct (map fst defined)"
    and "\<forall>k \<in> set (map fst defined). valid_placeholder_name k \<and> k \<noteq> ''userId'' \<and> k \<noteq> ''fileId''"
  shows "update_actions
           (''SET '' @ array_join '', '' (map (\<lambda>(key, x). ''#'' @ key @ '' = :'' @ key) defined))
           (map (\<lambda>(key, x). (''#'' @ key, key)) defined)
           (map_of (map (\<lambda>(key, x). ('':'' @ key, x)) defined))
       = Some defined"
proof -
  let ?names = "map (\<lambda>(key, x). (''#'' @ key, key)) defined"
  let ?vals = "map_of (map (\<lambda>(key, x). ('':'' @ key, x)) defined)"
  have m: "map (\<lambda>(key, x). ''#'' @ key @ '' = :'' @ key) defined
      = map (\<lambda>k. ''#'' @ k @ '' = :'' @ k) (map fst defined)"
    by (simp add: case_prod_beta)
  have ne: "map fst defined \<noteq> []" using assms(1) by simp
  have v: "\<forall>k \<in> set (map fst defined). valid_placeholder_name k" using assms(3) by simp
  have p: "parse_update_expression
      (''SET '' @ array_join '', '' (map (\<lambda>(key, x). ''#'' @ key @ '' = :'' @ key) defined))
      = Some (map (\<lambda>k. (''#'' @ k, '':'' @ k)) (map fst defined))"
    unfolding m by (rule parse_built_expression [OF ne v])
  have r: "those (map (\<lambda>(n, v). case (map_of ?names n, ?vals v) of
                                 (Some a, Some x) \<Rightarrow> Some (a, x)
                               | _ \<Rightarrow> None)
             (map (\<lambda>k. (''#'' @ k, '':'' @ k)) (map fst defined)))
        = Some defined"
  proof -
    have "those (map ((\<lambda>(n, v). case (map_of ?names n, ?vals v) of
                                 (Some a, Some x) \<Rightarrow> Some (a, x)
                               | _ \<Rightarrow> None) \<circ> (\<lambda>p. (''#'' @ fst p, '':'' @ fst p))) defined)
        = Some (map (\<lambda>p. p) defined)"
    proof (rule those_map_Some)
      fix p assume "p \<in> set defined"
      obtain k x where px: "p = (k, x)" by (cases p)
      with \<open>p \<in> set defined\<close> have mem: "(k, x) \<in> set defined" by simp
      show "((\<lambda>(n, v). case (map_of ?names n, ?vals v) of
                                 (Some a, Some x) \<Rightarrow> Some (a, x)
                               | _ \<Rightarrow> None) \<circ> (\<lambda>p. (''#'' @ fst p, '':'' @ fst p))) p = Some p"
        using map_of_names [OF mem] map_of_values [OF assms(2) mem] px
        by (simp del: append.simps)
    qed
    then show ?thesis by (simp add: comp_def)
  qed
  show ?thesis
    unfolding update_actions_def p using r assms(2,3) by auto
qed

lemma fold_sets:
  "distinct (map fst sets) \<Longrightarrow>
   fold (\<lambda>(a, x) it. it(a \<mapsto> x)) sets old = old ++ map_of sets"
proof (induction sets arbitrary: old)
  case Nil
  then show ?case by simp
next
  case (Cons s sets)
  obtain a x where s: "s = (a, x)" by (cases s)
  from Cons.prems s have a: "a \<notin> fst ` set sets" and d: "distinct (map fst sets)" by auto
  from a have none: "map_of sets a = None" by (simp add: map_of_eq_None_iff)
  have "fold (\<lambda>(a, x) it. it(a \<mapsto> x)) (s # sets) old
      = fold (\<lambda>(a, x) it. it(a \<mapsto> x)) sets (old(a \<mapsto> x))"
    by (simp add: s)
  also have "\<dots> = (old(a \<mapsto> x)) ++ map_of sets"
    by (rule Cons.IH [OF d])
  also have "\<dots> = old ++ map_of (s # sets)"
    using none by (auto simp: map_add_def fun_eq_iff s split: option.splits)
  finally show ?case .
qed

subsection \<open>The effect of an update\<close>

lemma definedEntries_Nil: "definedEntries [] = []"
  by (simp add: definedEntries_def)

lemma definedEntries_Cons:
  "definedEntries ((k, v) # updates)
     = (case v of None \<Rightarrow> [] | Some x \<Rightarrow> [(k, x)]) @ definedEntries updates"
  by (simp add: definedEntries_def)

lemma definedEntries_keys: "fst ` set (definedEntries updates) \<subseteq> fst ` set updates"
  by (force simp: definedEntries_def split: option.splits)

lemma distinct_definedEntries:
  "distinct (map fst updates) \<Longrightarrow> distinct (map fst (definedEntries updates))"
proof (induction updates)
  case Nil
  then show ?case by (simp add: definedEntries_Nil)
next
  case (Cons p updates)
  obtain k v where p: "p = (k, v)" by (cases p)
  from Cons p have "k \<notin> fst ` set updates" and "distinct (map fst (definedEntries updates))"
    by simp_all
  with definedEntries_keys [of updates]
  have "k \<notin> fst ` set (definedEntries updates)" and "distinct (map fst (definedEntries updates))"
    by blast+
  then show ?case
    unfolding p definedEntries_Cons by (cases v) simp_all
qed

lemma definedEntries_mem:
  "(k, x) \<in> set (definedEntries updates) \<longleftrightarrow> (k, Some x) \<in> set updates"
  by (auto simp: definedEntries_def split: option.splits)

lemma marshallable_values:
  "list_all (\<lambda>(key, v). marshallable v) (map (\<lambda>(key, x). ('':'' @ key, x)) defined)
     = (\<forall>k x. (k, x) \<in> set defined \<longrightarrow> marshallable x)"
  by (auto simp: list_all_iff)

lemma updateWorkItem_applies:
  assumes "enabled env" "\<not> outage w (length (requests w))"
    and "definedEntries updates \<noteq> []" "distinct (map fst updates)"
    and "\<forall>k \<in> set (map fst (definedEntries updates)).
           valid_placeholder_name k \<and> k \<noteq> ''userId'' \<and> k \<noteq> ''fileId''"
    and "\<forall>k x. (k, Some x) \<in> set updates \<longrightarrow> marshallable x"
  shows "updateWorkItem env userId fileId updates w =
     (Inr ((case table w (userId, fileId) of None \<Rightarrow> keyItem (userId, fileId) | Some it \<Rightarrow> it)
             ++ map_of (definedEntries updates)),
      w\<lparr>requests := requests w @
           [UpdateItemCommand (userId, fileId)
              (''SET '' @ array_join '', ''
                 (map (\<lambda>(key, x). ''#'' @ key @ '' = :'' @ key) (definedEntries updates)))],
        table := (table w)((userId, fileId) \<mapsto>
           (case table w (userId, fileId) of None \<Rightarrow> keyItem (userId, fileId) | Some it \<Rightarrow> it)
             ++ map_of (definedEntries updates))\<rparr>)"
proof -
  have d: "distinct (map fst (definedEntries updates))"
    using assms(4) by (rule distinct_definedEntries)
  note ua = update_actions_built [OF assms(3) d assms(5), simplified]
  have m: "marshall (map (\<lambda>(key, x). ('':'' @ key, x)) (definedEntries updates))
      = Inr (map_of (map (\<lambda>(key, x). ('':'' @ key, x)) (definedEntries updates)))"
    using assms(6) by (simp only: marshall_ok marshallable_values definedEntries_mem)
  show ?thesis
    using assms(1)
    by (simp add: updateWorkItem_def Let_def io_catch_def ddb_updateItem_def
        m [simplified] io_bind_lift_Inr send_served [OF assms(2)] ua fold_sets [OF d])
qed

text \<open>A number that \<open>marshall\<close> refuses ends the update before any request is sent.\<close>

lemma updateWorkItem_unmarshallable:
  assumes "enabled env" "(k, Some x) \<in> set updates" "\<not> marshallable x"
  shows "updateWorkItem env userId fileId updates w
     = (Inl (Error ''Failed to update work item''), w)"
proof -
  have "\<not> (\<forall>k x. (k, x) \<in> set (definedEntries updates) \<longrightarrow> marshallable x)"
    using assms(2,3) by (auto simp: definedEntries_mem)
  then have "\<exists>e. marshall (map (\<lambda>(key, x). ('':'' @ key, x)) (definedEntries updates)) = Inl e"
    by (simp only: marshall_def marshallable_values) simp
  then obtain e where
    "marshall (map (\<lambda>(key, x). ('':'' @ key, x)) (definedEntries updates)) = Inl e" ..
  then show ?thesis
    using assms(1)
    by (simp add: updateWorkItem_def Let_def io_catch_def io_bind_lift_Inl io_throw_def)
qed

lemma example_defined:
  "definedEntries example_updates
     = [(''analysisStatus'', A_S ''IN_PROGRESS''), (''analysisProgress'', A_N 40)]"
  by (simp add: definedEntries_def example_updates_def)



text \<open>
  C4 (as amended). When the service is enabled, the request is served, the work item
  exists and the partial update (an object: its field names are distinct) has at least
  one field that is not \<open>undefined\<close>, its field names being placeholder names other
  than the two key attributes and its numbers lying within the safe integers,
  \<open>updateWorkItem\<close> sends one update whose expression names every such field through
  \<open>#\<close> and \<open>:\<close> placeholders, writes exactly those fields, leaves every other attribute
  and every other record as they were, and returns the record as it is afterwards.
\<close>

theorem updateWorkItem_frame:
  assumes "enabled env" and "\<not> outage w (length (requests w))"
    and "table w (userId, fileId) = Some old"
    and "distinct (map fst updates)"
    and "definedEntries updates \<noteq> []"
    and "\<forall>k \<in> set (map fst (definedEntries updates)).
           valid_placeholder_name k \<and> k \<noteq> ''userId'' \<and> k \<noteq> ''fileId''"
    and "\<forall>k x. (k, Some x) \<in> set updates \<longrightarrow> marshallable x"
  shows "updateWorkItem env userId fileId updates w =
           (Inr (old ++ map_of (definedEntries updates)),
            w\<lparr>requests := requests w @
                 [UpdateItemCommand (userId, fileId)
                    (''SET '' @ array_join '', ''
                       (map (\<lambda>(key, x). ''#'' @ key @ '' = :'' @ key) (definedEntries updates)))],
              table := (table w)((userId, fileId) \<mapsto> old ++ map_of (definedEntries updates))\<rparr>)
       \<and> (\<forall>k x. (k, Some x) \<in> set updates \<longrightarrow> (old ++ map_of (definedEntries updates)) k = Some x)
       \<and> (\<forall>a. (\<forall>x. (a, Some x) \<notin> set updates) \<longrightarrow> (old ++ map_of (definedEntries updates)) a = old a)"
proof -
  have d: "distinct (map fst (definedEntries updates))"
    using assms(4) by (rule distinct_definedEntries)
  have written: "(old ++ map_of (definedEntries updates)) k = Some x"
    if "(k, Some x) \<in> set updates" for k x
  proof -
    from that have "(k, x) \<in> set (definedEntries updates)" by (simp add: definedEntries_mem)
    with d have "map_of (definedEntries updates) k = Some x" by simp
    then show ?thesis by (simp add: map_add_def)
  qed
  have kept: "(old ++ map_of (definedEntries updates)) a = old a"
    if "\<forall>x. (a, Some x) \<notin> set updates" for a
  proof -
    from that have "a \<notin> fst ` set (definedEntries updates)"
      by (auto simp: definedEntries_mem)
    then have "map_of (definedEntries updates) a = None" by (simp add: map_of_eq_None_iff)
    then show ?thesis by (simp add: map_add_def)
  qed
  from updateWorkItem_applies [OF assms(1,2,5,4,6,7), of userId fileId] assms(3) written kept
  show ?thesis by simp
qed

theorem updateWorkItem_frame_witness:
  "enabled example_env \<and> \<not> outage example_world (length (requests example_world))
   \<and> table example_world (example_user, example_file) = Some (map_of example_item)
   \<and> distinct (map fst example_updates) \<and> definedEntries example_updates \<noteq> []
   \<and> fst (updateWorkItem example_env example_user example_file example_updates example_world)
       = Inr (map_of example_item
               ++ map_of [(''analysisStatus'', A_S ''IN_PROGRESS''), (''analysisProgress'', A_N 40)])
   \<and> requests (snd (updateWorkItem example_env example_user example_file example_updates
         example_world))
       = [UpdateItemCommand (example_user, example_file)
            ''SET #analysisStatus = :analysisStatus, #analysisProgress = :analysisProgress'']"
proof -
  have h1: "enabled example_env" by (simp add: example_env_def)
  have h2: "\<not> outage example_world (length (requests example_world))"
    by (simp add: example_world_def)
  have h3: "table example_world (example_user, example_file) = Some (map_of example_item)"
    by (simp add: example_world_def)
  have h4: "distinct (map fst example_updates)" by (simp add: example_updates_def)
  have h5: "definedEntries example_updates \<noteq> []" by (simp add: example_defined)
  have h6: "\<forall>k \<in> set (map fst (definedEntries example_updates)).
           valid_placeholder_name k \<and> k \<noteq> ''userId'' \<and> k \<noteq> ''fileId''"
    by (simp add: example_defined valid_placeholder_name_def is_name_char_def)
  have h7: "\<forall>k x. (k, Some x) \<in> set example_updates \<longrightarrow> marshallable x"
    by (auto simp: example_updates_def marshallable_def)
  from updateWorkItem_frame [OF h1 h2 h3 h4 h5 h6 h7] h1 h2 h3 h4 h5
  show ?thesis by (simp add: example_defined example_world_def)
qed

text \<open>
  With an update that has no field, or whose only field is \<open>undefined\<close>, the
  expression sent is \<open>SET \<close> with no clause: the store rejects it, and \<open>updateWorkItem\<close>
  fails where the claim has it return the record. With a number beyond the safe
  integers (here \<open>2^53\<close>) \<open>marshall\<close> throws while the request is built: the update fails
  and nothing is sent.
\<close>

theorem updateWorkItem_empty_update_counterexample:
  "updateWorkItem example_env example_user example_file [] example_world
     = (Inl (Error ''Failed to update work item''),
        example_world\<lparr>requests := [UpdateItemCommand (example_user, example_file) ''SET '']\<rparr>)
   \<and> updateWorkItem example_env example_user example_file [(''iacGeneratedFileType'', None)]
       example_world
     = (Inl (Error ''Failed to update work item''),
        example_world\<lparr>requests := [UpdateItemCommand (example_user, example_file) ''SET '']\<rparr>)
   \<and> updateWorkItem example_env example_user example_file
       [(''analysisProgress'', Some (A_N 9007199254740992))] example_world
     = (Inl (Error ''Failed to update work item''), example_world)"
proof -
  have a: "updateWorkItem example_env example_user example_file [] example_world
     = (Inl (Error ''Failed to update work item''),
        example_world\<lparr>requests := [UpdateItemCommand (example_user, example_file) ''SET '']\<rparr>)"
    by (simp add: updateWorkItem_def definedEntries_def Let_def io_catch_def io_throw_def
        io_bind_def io_lift_def marshall_def
        ddb_updateItem_def send_def update_actions_def parse_update_expression_def
        parse_clause_def example_env_def example_world_def)
  have b: "updateWorkItem example_env example_user example_file [(''iacGeneratedFileType'', None)]
       example_world
     = (Inl (Error ''Failed to update work item''),
        example_world\<lparr>requests := [UpdateItemCommand (example_user, example_file) ''SET '']\<rparr>)"
    by (simp add: updateWorkItem_def definedEntries_def Let_def io_catch_def io_throw_def
        io_bind_def io_lift_def marshall_def
        ddb_updateItem_def send_def update_actions_def parse_update_expression_def
        parse_clause_def example_env_def example_world_def)
  have c: "updateWorkItem example_env example_user example_file
       [(''analysisProgress'', Some (A_N 9007199254740992))] example_world
     = (Inl (Error ''Failed to update work item''), example_world)"
    by (simp add: updateWorkItem_def definedEntries_def Let_def io_catch_def io_throw_def
        io_bind_def io_lift_def marshall_def marshallable_def example_env_def)
  from a b c show ?thesis by simp
qed


text \<open>
  C10 (as amended). When the table holds no record under the pair and the partial update
  (an object: its field names are distinct) has at least one field that is not
  \<open>undefined\<close>, its field names being placeholder names other than the two key
  attributes and its numbers lying within the safe integers, \<open>updateWorkItem\<close> does not
  fail (the storage being enabled and the request served): the update creates a record
  that holds the two key attributes and the fields of the partial update that are not
  \<open>undefined\<close>, and nothing else, and this record is what \<open>updateWorkItem\<close> returns.
\<close>

theorem updateWorkItem_upserts:
  assumes "enabled env" and "\<not> outage w (length (requests w))"
    and "table w (userId, fileId) = None"
    and "distinct (map fst updates)"
    and "definedEntries updates \<noteq> []"
    and "\<forall>k \<in> set (map fst (definedEntries updates)).
           valid_placeholder_name k \<and> k \<noteq> ''userId'' \<and> k \<noteq> ''fileId''"
    and "\<forall>k x. (k, Some x) \<in> set updates \<longrightarrow> marshallable x"
  shows "updateWorkItem env userId fileId updates w =
           (Inr (keyItem (userId, fileId) ++ map_of (definedEntries updates)),
            w\<lparr>requests := requests w @
                 [UpdateItemCommand (userId, fileId)
                    (''SET '' @ array_join '', ''
                       (map (\<lambda>(key, x). ''#'' @ key @ '' = :'' @ key) (definedEntries updates)))],
              table := (table w)((userId, fileId) \<mapsto>
                 keyItem (userId, fileId) ++ map_of (definedEntries updates))\<rparr>)
       \<and> dom (keyItem (userId, fileId) ++ map_of (definedEntries updates))
           = {''userId'', ''fileId''} \<union> {k. \<exists>x. (k, Some x) \<in> set updates}
       \<and> (keyItem (userId, fileId) ++ map_of (definedEntries updates)) ''userId'' = Some (A_S userId)
       \<and> (keyItem (userId, fileId) ++ map_of (definedEntries updates)) ''fileId'' = Some (A_S fileId)"
proof -
  have keys: "''userId'' \<notin> fst ` set (definedEntries updates)"
    "''fileId'' \<notin> fst ` set (definedEntries updates)"
    using assms(6) by auto
  then have none: "map_of (definedEntries updates) ''userId'' = None"
    "map_of (definedEntries updates) ''fileId'' = None"
    by (simp_all add: map_of_eq_None_iff)
  have dk: "dom (keyItem (userId, fileId)) = {''userId'', ''fileId''}"
    by (auto simp: keyItem_def split: if_splits)
  have dd: "dom (map_of (definedEntries updates)) = {k. \<exists>x. (k, Some x) \<in> set updates}"
  proof -
    have "fst ` set (definedEntries updates) = {k. \<exists>x. (k, Some x) \<in> set updates}"
    proof (rule set_eqI)
      fix k
      have "k \<in> fst ` set (definedEntries updates)
          \<longleftrightarrow> (\<exists>x. (k, x) \<in> set (definedEntries updates))"
        by force
      then show "k \<in> fst ` set (definedEntries updates)
          \<longleftrightarrow> k \<in> {k. \<exists>x. (k, Some x) \<in> set updates}"
        by (simp add: definedEntries_mem)
    qed
    then show ?thesis by (simp add: dom_map_of_conv_image_fst)
  qed
  have d: "dom (keyItem (userId, fileId) ++ map_of (definedEntries updates))
      = {''userId'', ''fileId''} \<union> {k. \<exists>x. (k, Some x) \<in> set updates}"
    using dk dd by auto
  have u: "(keyItem (userId, fileId) ++ map_of (definedEntries updates)) ''userId'' = Some (A_S userId)"
    using none by (simp add: map_add_def keyItem_def)
  have f: "(keyItem (userId, fileId) ++ map_of (definedEntries updates)) ''fileId'' = Some (A_S fileId)"
    using none by (simp add: map_add_def keyItem_def)
  from updateWorkItem_applies [OF assms(1,2,5,4,6,7), of userId fileId] assms(3) d u f
  show ?thesis by simp
qed

theorem updateWorkItem_upserts_witness:
  "enabled example_env \<and> \<not> outage empty_world (length (requests empty_world))
   \<and> table empty_world (example_user, example_file) = None
   \<and> distinct (map fst example_updates) \<and> definedEntries example_updates \<noteq> []
   \<and> fst (updateWorkItem example_env example_user example_file example_updates empty_world)
       = Inr (keyItem (example_user, example_file)
               ++ map_of [(''analysisStatus'', A_S ''IN_PROGRESS''), (''analysisProgress'', A_N 40)])
   \<and> table (snd (updateWorkItem example_env example_user example_file example_updates empty_world))
         (example_user, example_file)
       = Some (keyItem (example_user, example_file)
               ++ map_of [(''analysisStatus'', A_S ''IN_PROGRESS''), (''analysisProgress'', A_N 40)])"
proof -
  have h1: "enabled example_env" by (simp add: example_env_def)
  have h2: "\<not> outage empty_world (length (requests empty_world))"
    by (simp add: empty_world_def)
  have h3: "table empty_world (example_user, example_file) = None"
    by (simp add: empty_world_def)
  have h4: "distinct (map fst example_updates)" by (simp add: example_updates_def)
  have h5: "definedEntries example_updates \<noteq> []" by (simp add: example_defined)
  have h6: "\<forall>k \<in> set (map fst (definedEntries example_updates)).
           valid_placeholder_name k \<and> k \<noteq> ''userId'' \<and> k \<noteq> ''fileId''"
    by (simp add: example_defined valid_placeholder_name_def is_name_char_def)
  have h7: "\<forall>k x. (k, Some x) \<in> set example_updates \<longrightarrow> marshallable x"
    by (auto simp: example_updates_def marshallable_def)
  from updateWorkItem_upserts [OF h1 h2 h3 h4 h5 h6 h7] h1 h2 h3 h4 h5
  show ?thesis by (simp add: example_defined)
qed

text \<open>
  With an update that has no field the expression sent is \<open>SET \<close> with no clause: the
  store rejects it, \<open>updateWorkItem\<close> fails and no record is created, where the claim
  has it create and return a record that holds the two key attributes.
\<close>

theorem updateWorkItem_upserts_counterexample:
  "table empty_world (example_user, example_file) = None
   \<and> fst (updateWorkItem example_env example_user example_file [] empty_world)
       = Inl (Error ''Failed to update work item'')
   \<and> requests (snd (updateWorkItem example_env example_user example_file [] empty_world))
       = [UpdateItemCommand (example_user, example_file) ''SET '']
   \<and> table (snd (updateWorkItem example_env example_user example_file [] empty_world))
         (example_user, example_file) = None"
  by (simp add: updateWorkItem_def definedEntries_def Let_def io_catch_def io_throw_def
      io_bind_def io_lift_def marshall_def
      ddb_updateItem_def send_def update_actions_def parse_update_expression_def
      parse_clause_def example_env_def empty_world_def)


section \<open>Deleting a work item\<close>

lemma listedKeys_subset: "set (listedKeys pre objs) \<subseteq> {k \<in> fst ` set objs. prefix pre k}"
proof -
  have "set (listedKeys pre objs) \<subseteq> set (sort (filter (prefix pre) (map fst objs)))"
    unfolding listedKeys_def by (rule set_take_subset)
  then show ?thesis by auto
qed

lemma listedKeys_complete:
  "length (filter (prefix pre) (map fst objs)) \<le> 1000 \<Longrightarrow>
   set (listedKeys pre objs) = {k \<in> fst ` set objs. prefix pre k}"
  by (auto simp: listedKeys_def)

lemma listedKeys_after_delete:
  assumes "length (filter (prefix pre) (map fst objs)) \<le> 1000"
  shows "listedKeys pre (filter (\<lambda>p. fst p \<notin> set (listedKeys pre objs)) objs) = []"
proof -
  have "filter (prefix pre) (map fst (filter (\<lambda>p. fst p \<notin> set (listedKeys pre objs)) objs)) = []"
    using listedKeys_complete [OF assms] by (auto simp: filter_empty_conv)
  then show ?thesis by (simp add: listedKeys_def)
qed

lemma deleteWorkItem_served:
  assumes "enabled env" "\<forall>n. \<not> outage w n"
  shows "deleteWorkItem env userId fileId w =
     (Inr (),
      w\<lparr>requests := requests w @ [ListObjectsV2Command (userId @ ''/'' @ fileId)]
           @ (if listedKeys (userId @ ''/'' @ fileId) (objects w) \<noteq> []
              then [DeleteObjectsCommand (listedKeys (userId @ ''/'' @ fileId) (objects w))] else [])
           @ [DeleteItemCommand (userId, fileId)],
        objects := filter (\<lambda>p. fst p \<notin> set (listedKeys (userId @ ''/'' @ fileId) (objects w)))
                     (objects w),
        table := (table w)((userId, fileId) := None)\<rparr>)"
  using assms
  by (simp add: deleteWorkItem_def io_catch_def io_bind_def io_return_def s3_listObjects_def
      s3_deleteObjects_def ddb_deleteItem_def send_def Let_def)


lemma example_listedKeys:
  "listedKeys (example_user @ ''/'' @ example_file) (objects example_world)
     = [example_user @ ''/'' @ example_file @ ''/original_content'']"
  by (simp add: listedKeys_def example_world_def)

text \<open>
  C5. With the storage enabled and the stores serving every request, \<open>deleteWorkItem\<close>
  lists the keys below the storage root, deletes the keys it was given (no request when
  the listing is empty) and then deletes the record, in that order. A second call on
  the same pair succeeds; when the first listing held every key below the root, the
  second one is empty and the second call sends the listing and the deletion of the
  record only.
\<close>

theorem deleteWorkItem_order_and_repeat:
  assumes "enabled env" "\<forall>n. \<not> outage w n"
  shows "deleteWorkItem env userId fileId w =
     (Inr (),
      w\<lparr>requests := requests w @ [ListObjectsV2Command (userId @ ''/'' @ fileId)]
           @ (if listedKeys (userId @ ''/'' @ fileId) (objects w) \<noteq> []
              then [DeleteObjectsCommand (listedKeys (userId @ ''/'' @ fileId) (objects w))] else [])
           @ [DeleteItemCommand (userId, fileId)],
        objects := filter (\<lambda>p. fst p \<notin> set (listedKeys (userId @ ''/'' @ fileId) (objects w)))
                     (objects w),
        table := (table w)((userId, fileId) := None)\<rparr>)
    \<and> fst (deleteWorkItem env userId fileId (snd (deleteWorkItem env userId fileId w))) = Inr ()
    \<and> (length (filter (prefix (userId @ ''/'' @ fileId)) (map fst (objects w))) \<le> 1000 \<longrightarrow>
         requests (snd (deleteWorkItem env userId fileId (snd (deleteWorkItem env userId fileId w))))
           = requests (snd (deleteWorkItem env userId fileId w))
               @ [ListObjectsV2Command (userId @ ''/'' @ fileId), DeleteItemCommand (userId, fileId)])"
proof -
  let ?w1 = "snd (deleteWorkItem env userId fileId w)"
  note first = deleteWorkItem_served [OF assms, of userId fileId]
  have out1: "\<forall>n. \<not> outage ?w1 n"
    using assms(2) by (simp add: first)
  note second = deleteWorkItem_served [OF assms(1) out1, of userId fileId]
  have ok2: "fst (deleteWorkItem env userId fileId ?w1) = Inr ()"
    by (simp add: second)
  have req2: "requests (snd (deleteWorkItem env userId fileId ?w1))
           = requests ?w1
               @ [ListObjectsV2Command (userId @ ''/'' @ fileId), DeleteItemCommand (userId, fileId)]"
    if "length (filter (prefix (userId @ ''/'' @ fileId)) (map fst (objects w))) \<le> 1000"
  proof -
    have "listedKeys (userId @ ''/'' @ fileId) (objects ?w1) = []"
      using listedKeys_after_delete [OF that] by (simp add: first)
    then show ?thesis by (simp add: second)
  qed
  from first ok2 req2 show ?thesis by blast
qed

theorem deleteWorkItem_order_and_repeat_witness:
  "enabled example_env \<and> (\<forall>n. \<not> outage example_world n)
   \<and> length (filter (prefix (example_user @ ''/'' @ example_file)) (map fst (objects example_world)))
        \<le> 1000
   \<and> fst (deleteWorkItem example_env example_user example_file example_world) = Inr ()
   \<and> requests (snd (deleteWorkItem example_env example_user example_file example_world))
       = [ListObjectsV2Command (example_user @ ''/'' @ example_file),
          DeleteObjectsCommand [example_user @ ''/'' @ example_file @ ''/original_content''],
          DeleteItemCommand (example_user, example_file)]
   \<and> objects (snd (deleteWorkItem example_env example_user example_file example_world)) = []
   \<and> table (snd (deleteWorkItem example_env example_user example_file example_world))
        (example_user, example_file) = None
   \<and> fst (deleteWorkItem example_env example_user example_file
        (snd (deleteWorkItem example_env example_user example_file example_world))) = Inr ()
   \<and> requests (snd (deleteWorkItem example_env example_user example_file
        (snd (deleteWorkItem example_env example_user example_file example_world))))
       = [ListObjectsV2Command (example_user @ ''/'' @ example_file),
          DeleteObjectsCommand [example_user @ ''/'' @ example_file @ ''/original_content''],
          DeleteItemCommand (example_user, example_file),
          ListObjectsV2Command (example_user @ ''/'' @ example_file),
          DeleteItemCommand (example_user, example_file)]"
proof -
  have h1: "enabled example_env" by (simp add: example_env_def)
  have h2: "\<forall>n. \<not> outage example_world n" by (simp add: example_world_def)
  have h3: "length (filter (prefix (example_user @ ''/'' @ example_file))
      (map fst (objects example_world))) \<le> 1000"
    by (simp add: example_world_def)
  have rq: "requests example_world = []" and ob: "objects example_world
      = [(example_user @ ''/'' @ example_file @ ''/original_content'',
           \<lparr> obj_body = ascii_encode ''resource a'', obj_contentType = Some ''text/plain'' \<rparr>)]"
    by (simp_all add: example_world_def)
  note main = deleteWorkItem_order_and_repeat [OF h1 h2, of example_user example_file]
  from main [unfolded example_listedKeys]
  have first: "deleteWorkItem example_env example_user example_file example_world =
     (Inr (),
      example_world\<lparr>requests :=
          [ListObjectsV2Command (example_user @ ''/'' @ example_file),
           DeleteObjectsCommand [example_user @ ''/'' @ example_file @ ''/original_content''],
           DeleteItemCommand (example_user, example_file)],
        objects := [],
        table := (table example_world)((example_user, example_file) := None)\<rparr>)"
    by (simp add: rq ob)
  from main h3 have second: "requests (snd (deleteWorkItem example_env example_user example_file
        (snd (deleteWorkItem example_env example_user example_file example_world))))
       = requests (snd (deleteWorkItem example_env example_user example_file example_world))
          @ [ListObjectsV2Command (example_user @ ''/'' @ example_file),
          DeleteItemCommand (example_user, example_file)]"
    by blast
  from main have ok2: "fst (deleteWorkItem example_env example_user example_file
        (snd (deleteWorkItem example_env example_user example_file example_world))) = Inr ()"
    by blast
  show ?thesis
    using h1 h2 h3 ok2 second by (simp add: first)
qed


section \<open>Reading content\<close>

lemma getWorkItem_found:
  assumes "enabled env" "\<not> outage w (length (requests w))" "table w (userId, fileId) = Some it"
  shows "getWorkItem env userId fileId w
     = (Inr it, w\<lparr>requests := requests w @ [GetItemCommand (userId, fileId)]\<rparr>)"
  using assms
  by (simp add: getWorkItem_def io_catch_def io_bind_def io_return_def ddb_getItem_def send_served)

lemma getWorkItem_failed:
  assumes "enabled env" "outage w (length (requests w)) \<or> table w (userId, fileId) = None"
  shows "getWorkItem env userId fileId w
     = (Inl (Error ''Failed to get work item''),
        w\<lparr>requests := requests w @ [GetItemCommand (userId, fileId)]\<rparr>)"
  using assms
  by (auto simp: getWorkItem_def io_catch_def io_bind_def io_throw_def ddb_getItem_def send_def Let_def)

lemma getPackedContent_found:
  assumes "enabled env" "\<not> outage w (length (requests w))"
    and "map_of (objects w) (packedContent (getS3Locations userId fileId)) = Some obj"
  shows "getPackedContent env userId fileId w
     = (Inr (utf8Decode env (obj_body obj)),
        w\<lparr>requests := requests w @ [GetObjectCommand (packedContent (getS3Locations userId fileId))]\<rparr>)"
  using assms
  by (simp add: getPackedContent_def io_catch_def io_bind_def io_return_def s3_getObject_def
      send_served Let_def)

lemma getPackedContent_failed:
  assumes "enabled env"
    and "outage w (length (requests w))
       \<or> map_of (objects w) (packedContent (getS3Locations userId fileId)) = None"
  shows "getPackedContent env userId fileId w
     = (Inl (Error ''Failed to get packed content''),
        w\<lparr>requests := requests w @ [GetObjectCommand (packedContent (getS3Locations userId fileId))]\<rparr>)"
  using assms
  by (auto simp: getPackedContent_def io_catch_def io_bind_def io_throw_def s3_getObject_def
      send_def Let_def)

lemma s3_getObject_found:
  assumes "\<not> outage w (length (requests w))" "map_of (objects w) key = Some obj"
  shows "s3_getObject key w = (Inr obj, w\<lparr>requests := requests w @ [GetObjectCommand key]\<rparr>)"
  using assms by (simp add: s3_getObject_def send_served)

lemma s3_getObject_failed:
  assumes "outage w (length (requests w)) \<or> map_of (objects w) key = None"
  shows "\<exists>e. s3_getObject key w = (Inl e, w\<lparr>requests := requests w @ [GetObjectCommand key]\<rparr>)"
  using assms by (auto simp: s3_getObject_def send_def Let_def)


lemma getOriginalContent_packed:
  assumes "enabled env" and "table w (userId, fileId) = Some workItem"
    and "workItem ''uploadMode'' = Some (A_S (modeValue env MULTIPLE_FILES))
       \<or> workItem ''uploadMode'' = Some (A_S (modeValue env ZIP_FILE))"
    and "\<not> outage w (length (requests w))" "\<not> outage w (Suc (length (requests w)))"
    and "map_of (objects w) (packedContent (getS3Locations userId fileId)) = Some packed"
  shows "getOriginalContent env userId fileId False w
     = (Inr \<lparr> oc_data = StringData (utf8Decode env (obj_body packed)),
              oc_contentType = ''text/plain'' \<rparr>,
        w\<lparr>requests := requests w @
             [GetItemCommand (userId, fileId),
              GetObjectCommand (packedContent (getS3Locations userId fileId))]\<rparr>)"
  using assms
  by (simp add: getOriginalContent_def Let_def io_catch_def io_bind_def io_return_def
      getWorkItem_found getPackedContent_found)

lemma getOriginalContent_fallback:
  assumes "enabled env" and "table w (userId, fileId) = Some workItem"
    and "workItem ''uploadMode'' = Some (A_S (modeValue env MULTIPLE_FILES))
       \<or> workItem ''uploadMode'' = Some (A_S (modeValue env ZIP_FILE))"
    and "\<not> outage w (length (requests w))"
    and "outage w (Suc (length (requests w)))
       \<or> map_of (objects w) (packedContent (getS3Locations userId fileId)) = None"
    and "\<not> outage w (Suc (Suc (length (requests w))))"
    and "map_of (objects w) (originalContent (getS3Locations userId fileId)) = Some original"
  shows "getOriginalContent env userId fileId False w
     = (Inr (if prefix ''image/'' (stringOr (obj_contentType original) ''application/octet-stream'')
             then \<lparr> oc_data = StringData
                        (''data:'' @ stringOr (obj_contentType original) ''application/octet-stream''
                           @ '';base64,'' @ base64Encode env (obj_body original)),
                    oc_contentType = stringOr (obj_contentType original) ''application/octet-stream'' \<rparr>
             else \<lparr> oc_data = StringData (utf8Decode env (obj_body original)),
                    oc_contentType = stringOr (obj_contentType original) ''application/octet-stream'' \<rparr>),
        w\<lparr>requests := requests w @
             [GetItemCommand (userId, fileId),
              GetObjectCommand (packedContent (getS3Locations userId fileId)),
              GetObjectCommand (originalContent (getS3Locations userId fileId))]\<rparr>)"
proof -
  let ?w1 = "w\<lparr>requests := requests w @ [GetItemCommand (userId, fileId)]\<rparr>"
  have p: "getPackedContent env userId fileId ?w1
     = (Inl (Error ''Failed to get packed content''),
        ?w1\<lparr>requests := requests ?w1 @ [GetObjectCommand (packedContent (getS3Locations userId fileId))]\<rparr>)"
    by (rule getPackedContent_failed) (use assms in auto)
  show ?thesis
    using assms(1,2,3,4,6,7)
    by (simp add: getOriginalContent_def Let_def io_catch_def io_bind_def io_return_def
        getWorkItem_found p s3_getObject_found)
qed

lemma getOriginalContent_direct:
  assumes "enabled env" and "table w (userId, fileId) = Some workItem"
    and "forDownload \<or> \<not> (workItem ''uploadMode'' = Some (A_S (modeValue env MULTIPLE_FILES))
       \<or> workItem ''uploadMode'' = Some (A_S (modeValue env ZIP_FILE)))"
    and "\<not> outage w (length (requests w))" "\<not> outage w (Suc (length (requests w)))"
    and "map_of (objects w) (originalContent (getS3Locations userId fileId)) = Some original"
  shows "getOriginalContent env userId fileId forDownload w
     = (Inr (if forDownload
             then \<lparr> oc_data = BufferData (obj_body original),
                    oc_contentType = stringOr (obj_contentType original) ''application/octet-stream'' \<rparr>
             else if prefix ''image/'' (stringOr (obj_contentType original) ''application/octet-stream'')
             then \<lparr> oc_data = StringData
                        (''data:'' @ stringOr (obj_contentType original) ''application/octet-stream''
                           @ '';base64,'' @ base64Encode env (obj_body original)),
                    oc_contentType = stringOr (obj_contentType original) ''application/octet-stream'' \<rparr>
             else \<lparr> oc_data = StringData (utf8Decode env (obj_body original)),
                    oc_contentType = stringOr (obj_contentType original) ''application/octet-stream'' \<rparr>),
        w\<lparr>requests := requests w @
             [GetItemCommand (userId, fileId),
              GetObjectCommand (originalContent (getS3Locations userId fileId))]\<rparr>)"
  using assms
  by (auto simp: getOriginalContent_def Let_def io_catch_def io_bind_def io_return_def
      getWorkItem_found s3_getObject_found)

lemma getOriginalContent_error:
  "fst (getOriginalContent env userId fileId forDownload w) = Inl e \<Longrightarrow>
   e = Error ''Storage is not enabled'' \<or> e = Error ''Failed to get original content''"
  by (auto simp: getOriginalContent_def Let_def io_catch_def io_throw_def
      split: if_splits prod.splits sum.splits)

lemma ascii_roundtrip: "ascii_decode (ascii_encode s) = s"
proof -
  have "unat (of_char c :: 8 word) = of_char c" for c
  proof -
    have lt: "(of_char c :: nat) < 256" by simp
    have "(of_char c :: 8 word) = of_nat (of_char c)" by (simp add: of_nat_of_char)
    then have "unat (of_char c :: 8 word) = of_char c mod 2 ^ 8" by (simp add: unat_of_nat)
    with lt show ?thesis by simp
  qed
  then show ?thesis by (simp add: ascii_decode_def ascii_encode_def comp_def)
qed



text \<open>
  C2. For a work item whose upload mode is \<open>MULTIPLE_FILES\<close> or \<open>ZIP_FILE\<close>,
  \<open>getOriginalContent\<close> with \<open>forDownload = false\<close> returns the packed content as
  \<open>text/plain\<close> when the fetch of the packed content succeeds; when that fetch fails
  (the key is absent, or the store does not serve the request) it fetches the original
  content and returns it; and it never fails with the error of the packed content.
\<close>

theorem getOriginalContent_packed_or_fallback:
  assumes "enabled env" and "table w (userId, fileId) = Some workItem"
    and "workItem ''uploadMode'' = Some (A_S (modeValue env MULTIPLE_FILES))
       \<or> workItem ''uploadMode'' = Some (A_S (modeValue env ZIP_FILE))"
    and "\<not> outage w (length (requests w))"
  shows "(\<not> outage w (Suc (length (requests w)))
          \<and> map_of (objects w) (packedContent (getS3Locations userId fileId)) = Some packed \<longrightarrow>
          getOriginalContent env userId fileId False w
            = (Inr \<lparr> oc_data = StringData (utf8Decode env (obj_body packed)),
                     oc_contentType = ''text/plain'' \<rparr>,
               w\<lparr>requests := requests w @
                    [GetItemCommand (userId, fileId),
                     GetObjectCommand (packedContent (getS3Locations userId fileId))]\<rparr>))
       \<and> ((outage w (Suc (length (requests w)))
             \<or> map_of (objects w) (packedContent (getS3Locations userId fileId)) = None)
          \<and> \<not> outage w (Suc (Suc (length (requests w))))
          \<and> map_of (objects w) (originalContent (getS3Locations userId fileId)) = Some original \<longrightarrow>
          getOriginalContent env userId fileId False w
            = (Inr (if prefix ''image/''
                        (stringOr (obj_contentType original) ''application/octet-stream'')
                    then \<lparr> oc_data = StringData
                             (''data:''
                                @ stringOr (obj_contentType original) ''application/octet-stream''
                                @ '';base64,'' @ base64Encode env (obj_body original)),
                           oc_contentType =
                             stringOr (obj_contentType original) ''application/octet-stream'' \<rparr>
                    else \<lparr> oc_data = StringData (utf8Decode env (obj_body original)),
                           oc_contentType =
                             stringOr (obj_contentType original) ''application/octet-stream'' \<rparr>),
               w\<lparr>requests := requests w @
                    [GetItemCommand (userId, fileId),
                     GetObjectCommand (packedContent (getS3Locations userId fileId)),
                     GetObjectCommand (originalContent (getS3Locations userId fileId))]\<rparr>))
       \<and> fst (getOriginalContent env userId fileId False w)
            \<noteq> Inl (Error ''Failed to get packed content'')"
proof (intro conjI impI)
  assume "\<not> outage w (Suc (length (requests w)))
      \<and> map_of (objects w) (packedContent (getS3Locations userId fileId)) = Some packed"
  then show "getOriginalContent env userId fileId False w
            = (Inr \<lparr> oc_data = StringData (utf8Decode env (obj_body packed)),
                     oc_contentType = ''text/plain'' \<rparr>,
               w\<lparr>requests := requests w @
                    [GetItemCommand (userId, fileId),
                     GetObjectCommand (packedContent (getS3Locations userId fileId))]\<rparr>)"
    using getOriginalContent_packed [OF assms(1,2,3,4)] by simp
next
  assume a: "(outage w (Suc (length (requests w)))
             \<or> map_of (objects w) (packedContent (getS3Locations userId fileId)) = None)
          \<and> \<not> outage w (Suc (Suc (length (requests w))))
          \<and> map_of (objects w) (originalContent (getS3Locations userId fileId)) = Some original"
  show "getOriginalContent env userId fileId False w
            = (Inr (if prefix ''image/''
                        (stringOr (obj_contentType original) ''application/octet-stream'')
                    then \<lparr> oc_data = StringData
                             (''data:''
                                @ stringOr (obj_contentType original) ''application/octet-stream''
                                @ '';base64,'' @ base64Encode env (obj_body original)),
                           oc_contentType =
                             stringOr (obj_contentType original) ''application/octet-stream'' \<rparr>
                    else \<lparr> oc_data = StringData (utf8Decode env (obj_body original)),
                           oc_contentType =
                             stringOr (obj_contentType original) ''application/octet-stream'' \<rparr>),
               w\<lparr>requests := requests w @
                    [GetItemCommand (userId, fileId),
                     GetObjectCommand (packedContent (getS3Locations userId fileId)),
                     GetObjectCommand (originalContent (getS3Locations userId fileId))]\<rparr>)"
    by (rule getOriginalContent_fallback [OF assms(1,2,3,4)]) (use a in simp_all)
next
  show "fst (getOriginalContent env userId fileId False w)
            \<noteq> Inl (Error ''Failed to get packed content'')"
    using getOriginalContent_error [of env userId fileId False w] by auto
qed

theorem getOriginalContent_packed_or_fallback_witness:
  "enabled example_env
   \<and> table zip_world (example_user, example_zip_file) = Some (map_of zip_item)
   \<and> map_of zip_item ''uploadMode'' = Some (A_S (modeValue example_env ZIP_FILE))
   \<and> map_of (objects zip_world) (packedContent (getS3Locations example_user example_zip_file))
       = Some \<lparr> obj_body = ascii_encode ''resource a'', obj_contentType = Some ''text/plain'' \<rparr>
   \<and> fst (getOriginalContent example_env example_user example_zip_file False zip_world)
       = Inr \<lparr> oc_data = StringData ''resource a'', oc_contentType = ''text/plain'' \<rparr>
   \<and> map_of (objects zip_world_unpacked)
         (packedContent (getS3Locations example_user example_zip_file)) = None
   \<and> getOriginalContent example_env example_user example_zip_file False zip_world_unpacked
       = (Inr \<lparr> oc_data = StringData ''resource a'', oc_contentType = ''application/zip'' \<rparr>,
          zip_world_unpacked\<lparr>requests :=
            [GetItemCommand (example_user, example_zip_file),
             GetObjectCommand (example_user @ ''/'' @ example_zip_file @ ''/packed_content''),
             GetObjectCommand (example_user @ ''/'' @ example_zip_file @ ''/original_content'')]\<rparr>)"
proof -
  have h1: "enabled example_env" by (simp add: example_env_def)
  have h2: "table zip_world (example_user, example_zip_file) = Some (map_of zip_item)"
    and h2': "table zip_world_unpacked (example_user, example_zip_file) = Some (map_of zip_item)"
    by (simp_all add: zip_world_def zip_world_unpacked_def)
  have h3: "map_of zip_item ''uploadMode'' = Some (A_S (modeValue example_env ZIP_FILE))"
    by (simp add: zip_item_def example_env_def)
  then have h3': "map_of zip_item ''uploadMode'' = Some (A_S (modeValue example_env MULTIPLE_FILES))
       \<or> map_of zip_item ''uploadMode'' = Some (A_S (modeValue example_env ZIP_FILE))"
    by simp
  have h4: "\<not> outage zip_world (length (requests zip_world))"
    and h4': "\<not> outage zip_world_unpacked (length (requests zip_world_unpacked))"
    by (simp_all add: zip_world_def zip_world_unpacked_def)
  have p: "map_of (objects zip_world) (packedContent (getS3Locations example_user example_zip_file))
       = Some \<lparr> obj_body = ascii_encode ''resource a'', obj_contentType = Some ''text/plain'' \<rparr>"
    by (simp add: zip_world_def getS3Locations_def)
  have np: "map_of (objects zip_world_unpacked)
         (packedContent (getS3Locations example_user example_zip_file)) = None"
    by (simp add: zip_world_def zip_world_unpacked_def getS3Locations_def)
  have orig: "map_of (objects zip_world_unpacked)
         (originalContent (getS3Locations example_user example_zip_file))
       = Some \<lparr> obj_body = ascii_encode ''resource a'', obj_contentType = Some ''application/zip'' \<rparr>"
    by (simp add: zip_world_def zip_world_unpacked_def getS3Locations_def)
  have up: "\<not> outage zip_world (Suc (length (requests zip_world)))"
    "\<not> outage zip_world_unpacked (Suc (Suc (length (requests zip_world_unpacked))))"
    by (simp_all add: zip_world_def zip_world_unpacked_def)
  have rq: "requests zip_world_unpacked = []"
    by (simp add: zip_world_def zip_world_unpacked_def)
  from getOriginalContent_packed_or_fallback [OF h1 h2 h3' h4] up(1) p
  have a: "fst (getOriginalContent example_env example_user example_zip_file False zip_world)
       = Inr \<lparr> oc_data = StringData ''resource a'', oc_contentType = ''text/plain'' \<rparr>"
    by (simp add: example_env_def ascii_roundtrip)
  from getOriginalContent_packed_or_fallback [OF h1 h2' h3' h4'] up(2) np orig
  have b: "getOriginalContent example_env example_user example_zip_file False zip_world_unpacked
       = (Inr \<lparr> oc_data = StringData ''resource a'', oc_contentType = ''application/zip'' \<rparr>,
          zip_world_unpacked\<lparr>requests :=
            [GetItemCommand (example_user, example_zip_file),
             GetObjectCommand (example_user @ ''/'' @ example_zip_file @ ''/packed_content''),
             GetObjectCommand (example_user @ ''/'' @ example_zip_file @ ''/original_content'')]\<rparr>)"
    by (simp add: example_env_def ascii_roundtrip stringOr_def rq getS3Locations_def)
  from h1 h2 h3 p a np b show ?thesis by (intro conjI)
qed


text \<open>
  C8 (as amended). When \<open>getOriginalContent\<close> serves the original content (the call is a
  download, or the upload mode of the work item is neither \<open>MULTIPLE_FILES\<close> nor
  \<open>ZIP_FILE\<close>, or the fetch of the packed content fails, the request being refused or
  the key absent): with \<open>forDownload = true\<close> it returns the bytes as they are stored,
  whatever the content type; with \<open>forDownload = false\<close> it returns a data URI
  \<open>data:{contentType};base64,...\<close> for a content type that starts with \<open>image/\<close> and the
  bytes decoded as UTF-8 for every other content type.
\<close>

theorem getOriginalContent_presentation:
  assumes "enabled env" and "table w (userId, fileId) = Some workItem"
    and "\<not> outage w (length (requests w))"
    and "if forDownload \<or> \<not> (workItem ''uploadMode'' = Some (A_S (modeValue env MULTIPLE_FILES))
              \<or> workItem ''uploadMode'' = Some (A_S (modeValue env ZIP_FILE)))
         then \<not> outage w (Suc (length (requests w)))
         else (outage w (Suc (length (requests w)))
                 \<or> map_of (objects w) (packedContent (getS3Locations userId fileId)) = None)
              \<and> \<not> outage w (Suc (Suc (length (requests w))))"
    and "map_of (objects w) (originalContent (getS3Locations userId fileId))
           = Some \<lparr> obj_body = body, obj_contentType = Some contentType \<rparr>"
    and "contentType \<noteq> []"
  shows "fst (getOriginalContent env userId fileId forDownload w)
     = Inr (if forDownload then \<lparr> oc_data = BufferData body, oc_contentType = contentType \<rparr>
            else if prefix ''image/'' contentType
            then \<lparr> oc_data = StringData (''data:'' @ contentType @ '';base64,'' @ base64Encode env body),
                   oc_contentType = contentType \<rparr>
            else \<lparr> oc_data = StringData (utf8Decode env body), oc_contentType = contentType \<rparr>)"
proof (cases "forDownload \<or> \<not> (workItem ''uploadMode'' = Some (A_S (modeValue env MULTIPLE_FILES))
              \<or> workItem ''uploadMode'' = Some (A_S (modeValue env ZIP_FILE)))")
  case True
  with assms(4) have served: "\<not> outage w (Suc (length (requests w)))" by simp
  from getOriginalContent_direct [OF assms(1,2) True assms(3) served assms(5)] assms(6)
  show ?thesis by (simp add: stringOr_def)
next
  case False
  then have nd: "forDownload = False"
    and mode: "workItem ''uploadMode'' = Some (A_S (modeValue env MULTIPLE_FILES))
       \<or> workItem ''uploadMode'' = Some (A_S (modeValue env ZIP_FILE))"
    by simp_all
  from False assms(4)
  have failed: "outage w (Suc (length (requests w)))
       \<or> map_of (objects w) (packedContent (getS3Locations userId fileId)) = None"
    and served: "\<not> outage w (Suc (Suc (length (requests w))))"
    by simp_all
  from getOriginalContent_fallback [OF assms(1,2) mode assms(3) failed served assms(5)] assms(6)
  show ?thesis by (simp add: stringOr_def nd)
qed

theorem getOriginalContent_presentation_witness:
  "enabled example_env
   \<and> table png_world (example_user, example_png_file) = Some (map_of png_item)
   \<and> map_of (objects png_world) (originalContent (getS3Locations example_user example_png_file))
       = Some \<lparr> obj_body = [137, 80, 78, 71], obj_contentType = Some ''image/png'' \<rparr>
   \<and> fst (getOriginalContent example_env example_user example_png_file False png_world)
       = Inr \<lparr> oc_data = StringData ''data:image/png;base64,iVBORw=='',
               oc_contentType = ''image/png'' \<rparr>
   \<and> table example_world (example_user, example_file) = Some (map_of example_item)
   \<and> map_of (objects example_world) (originalContent (getS3Locations example_user example_file))
       = Some \<lparr> obj_body = ascii_encode ''resource a'', obj_contentType = Some ''text/plain'' \<rparr>
   \<and> fst (getOriginalContent example_env example_user example_file False example_world)
       = Inr \<lparr> oc_data = StringData ''resource a'', oc_contentType = ''text/plain'' \<rparr>
   \<and> fst (getOriginalContent example_env example_user example_file True example_world)
       = Inr \<lparr> oc_data = BufferData (ascii_encode ''resource a''), oc_contentType = ''text/plain'' \<rparr>
   \<and> table zip_world_unpacked (example_user, example_zip_file) = Some (map_of zip_item)
   \<and> map_of zip_item ''uploadMode'' = Some (A_S (modeValue example_env ZIP_FILE))
   \<and> map_of (objects zip_world_unpacked) (packedContent (getS3Locations example_user example_zip_file))
       = None
   \<and> map_of (objects zip_world_unpacked) (originalContent (getS3Locations example_user example_zip_file))
       = Some \<lparr> obj_body = ascii_encode ''resource a'', obj_contentType = Some ''application/zip'' \<rparr>
   \<and> fst (getOriginalContent example_env example_user example_zip_file False zip_world_unpacked)
       = Inr \<lparr> oc_data = StringData ''resource a'', oc_contentType = ''application/zip'' \<rparr>"
proof -
  have h1: "enabled example_env" by (simp add: example_env_def)
  have p2: "table png_world (example_user, example_png_file) = Some (map_of png_item)"
    by (simp add: png_world_def)
  have p3: "\<not> (map_of png_item ''uploadMode'' = Some (A_S (modeValue example_env MULTIPLE_FILES))
       \<or> map_of png_item ''uploadMode'' = Some (A_S (modeValue example_env ZIP_FILE)))"
    by (simp add: png_item_def example_env_def)
  have p4: "\<not> outage png_world (length (requests png_world))"
    "\<not> outage png_world (Suc (length (requests png_world)))"
    by (simp_all add: png_world_def)
  have p6: "map_of (objects png_world) (originalContent (getS3Locations example_user example_png_file))
       = Some \<lparr> obj_body = [137, 80, 78, 71], obj_contentType = Some ''image/png'' \<rparr>"
    by (simp add: png_world_def getS3Locations_def)
  have e2: "table example_world (example_user, example_file) = Some (map_of example_item)"
    by (simp add: example_world_def)
  have e3: "\<not> (map_of example_item ''uploadMode'' = Some (A_S (modeValue example_env MULTIPLE_FILES))
       \<or> map_of example_item ''uploadMode'' = Some (A_S (modeValue example_env ZIP_FILE)))"
    by (simp add: example_item_def example_env_def)
  have e4: "\<not> outage example_world (length (requests example_world))"
    "\<not> outage example_world (Suc (length (requests example_world)))"
    by (simp_all add: example_world_def)
  have e6: "map_of (objects example_world) (originalContent (getS3Locations example_user example_file))
       = Some \<lparr> obj_body = ascii_encode ''resource a'', obj_contentType = Some ''text/plain'' \<rparr>"
    by (simp add: example_world_def getS3Locations_def)
  have z2: "table zip_world_unpacked (example_user, example_zip_file) = Some (map_of zip_item)"
    by (simp add: zip_world_unpacked_def zip_world_def)
  have z3: "map_of zip_item ''uploadMode'' = Some (A_S (modeValue example_env ZIP_FILE))"
    by (simp add: zip_item_def example_env_def)
  have z4: "\<not> outage zip_world_unpacked (length (requests zip_world_unpacked))"
    "\<not> outage zip_world_unpacked (Suc (Suc (length (requests zip_world_unpacked))))"
    by (simp_all add: zip_world_unpacked_def zip_world_def)
  have z5: "map_of (objects zip_world_unpacked)
       (packedContent (getS3Locations example_user example_zip_file)) = None"
    by (simp add: zip_world_unpacked_def getS3Locations_def)
  have z6: "map_of (objects zip_world_unpacked)
       (originalContent (getS3Locations example_user example_zip_file))
       = Some \<lparr> obj_body = ascii_encode ''resource a'', obj_contentType = Some ''application/zip'' \<rparr>"
    by (simp add: zip_world_unpacked_def getS3Locations_def)
  have ne: "''image/png'' \<noteq> []" "''text/plain'' \<noteq> []" "''application/zip'' \<noteq> []"
    by simp_all
  have b64: "base64Encode example_env [137, 80, 78, 71] = ''iVBORw==''"
    by (simp add: example_env_def b64_alphabet_def)
  have a: "fst (getOriginalContent example_env example_user example_png_file False png_world)
       = Inr \<lparr> oc_data = StringData ''data:image/png;base64,iVBORw=='',
               oc_contentType = ''image/png'' \<rparr>"
    using getOriginalContent_presentation [OF h1 p2 p4(1) _ p6 ne(1), of False] p3 p4(2)
    by (simp add: b64)
  have b: "fst (getOriginalContent example_env example_user example_file False example_world)
       = Inr \<lparr> oc_data = StringData ''resource a'', oc_contentType = ''text/plain'' \<rparr>"
    using getOriginalContent_presentation [OF h1 e2 e4(1) _ e6 ne(2), of False] e3 e4(2)
    by (simp add: example_env_def ascii_roundtrip)
  have c: "fst (getOriginalContent example_env example_user example_file True example_world)
       = Inr \<lparr> oc_data = BufferData (ascii_encode ''resource a''), oc_contentType = ''text/plain'' \<rparr>"
    using getOriginalContent_presentation [OF h1 e2 e4(1) _ e6 ne(2), of True] e4(2)
    by simp
  have d: "fst (getOriginalContent example_env example_user example_zip_file False zip_world_unpacked)
       = Inr \<lparr> oc_data = StringData ''resource a'', oc_contentType = ''application/zip'' \<rparr>"
    using getOriginalContent_presentation [OF h1 z2 z4(1) _ z6 ne(3), of False] z3 z4(2) z5
    by (simp add: example_env_def ascii_roundtrip)
  from h1 p2 p6 a e2 e6 b c z2 z3 z5 z6 d show ?thesis by (intro conjI)
qed

text \<open>
  A download of an image returns the four bytes of the image, not a data URI: the
  claim fails for \<open>forDownload = true\<close>.
\<close>

theorem getOriginalContent_image_download_counterexample:
  "fst (getOriginalContent example_env example_user example_png_file True png_world)
     = Inr \<lparr> oc_data = BufferData [137, 80, 78, 71], oc_contentType = ''image/png'' \<rparr>
   \<and> fst (getOriginalContent example_env example_user example_png_file True png_world)
     \<noteq> Inr \<lparr> oc_data = StringData ''data:image/png;base64,iVBORw=='',
             oc_contentType = ''image/png'' \<rparr>"
  by (simp add: getOriginalContent_def getWorkItem_def s3_getObject_def ddb_getItem_def send_def
      io_catch_def io_bind_def io_return_def io_throw_def Let_def stringOr_def getS3Locations_def
      example_env_def png_world_def)


section \<open>Storing and reading back the original content\<close>

lemma map_of_s3_store:
  "map_of (s3_store k obj objs) k' = (if k' = k then Some obj else map_of objs k')"
  by (induction objs) (auto simp: s3_store_def)

lemma storeOriginalContent_plain:
  assumes "enabled env" "\<not> outage w (length (requests w))"
    and "\<not> (isString content \<and> prefix ''image/'' fileType)"
  shows "storeOriginalContent env userId fileId content fileType w
     = (Inr (),
        w\<lparr>requests := requests w @ [Upload (originalContent (getS3Locations userId fileId))],
          objects := s3_store (originalContent (getS3Locations userId fileId))
                       \<lparr> obj_body = bodyBytes env content, obj_contentType = Some fileType \<rparr>
                       (objects w)\<rparr>)"
proof -
  have c: "(isString content \<and> prefix ''image/'' fileType) = False"
    using assms(3) by simp
  show ?thesis
    using assms(1,2)
    by (simp add: storeOriginalContent_def c Let_def io_catch_def upload_done_def send_served)
qed



text \<open>
  C7 (as amended). When the storage is enabled, the three requests are served, the
  work item has a record, the content type is not empty and the content is not a
  string stored under an \<open>image/\<close> type, \<open>storeOriginalContent\<close> followed by
  \<open>getOriginalContent\<close> with \<open>forDownload = true\<close> returns the bytes of the content that
  was stored, and the content type it was stored with.
\<close>

theorem storeOriginalContent_roundtrip:
  assumes "enabled env" and "table w (userId, fileId) = Some workItem"
    and "\<not> (isString content \<and> prefix ''image/'' fileType)" and "fileType \<noteq> []"
    and "\<not> outage w (length (requests w))" "\<not> outage w (Suc (length (requests w)))"
      "\<not> outage w (Suc (Suc (length (requests w))))"
  shows "fst (storeOriginalContent env userId fileId content fileType w) = Inr ()
     \<and> fst (getOriginalContent env userId fileId True
               (snd (storeOriginalContent env userId fileId content fileType w)))
         = Inr \<lparr> oc_data = BufferData (bodyBytes env content), oc_contentType = fileType \<rparr>"
proof -
  let ?w1 = "snd (storeOriginalContent env userId fileId content fileType w)"
  note st = storeOriginalContent_plain [OF assms(1,5,3), of userId fileId]
  have t: "table ?w1 (userId, fileId) = Some workItem"
    using assms(2) by (simp add: st)
  have o1: "\<not> outage ?w1 (length (requests ?w1))" "\<not> outage ?w1 (Suc (length (requests ?w1)))"
    using assms(6,7) by (simp_all add: st)
  have obj: "map_of (objects ?w1) (originalContent (getS3Locations userId fileId))
      = Some \<lparr> obj_body = bodyBytes env content, obj_contentType = Some fileType \<rparr>"
    by (simp add: st map_of_s3_store)
  have "fst (getOriginalContent env userId fileId True ?w1)
      = Inr \<lparr> oc_data = BufferData (bodyBytes env content), oc_contentType = fileType \<rparr>"
    using getOriginalContent_direct [OF assms(1) t _ o1 obj, of True] assms(4)
    by (simp add: stringOr_def)
  then show ?thesis by (simp add: st)
qed

theorem storeOriginalContent_roundtrip_witness:
  "enabled example_env
   \<and> table example_world (example_user, example_file) = Some (map_of example_item)
   \<and> \<not> (isString (StringData ''resource b'') \<and> prefix ''image/'' ''text/plain'')
   \<and> fst (storeOriginalContent example_env example_user example_file (StringData ''resource b'')
          ''text/plain'' example_world) = Inr ()
   \<and> fst (getOriginalContent example_env example_user example_file True
          (snd (storeOriginalContent example_env example_user example_file
                  (StringData ''resource b'') ''text/plain'' example_world)))
       = Inr \<lparr> oc_data = BufferData (ascii_encode ''resource b''), oc_contentType = ''text/plain'' \<rparr>"
proof -
  have h1: "enabled example_env" by (simp add: example_env_def)
  have h2: "table example_world (example_user, example_file) = Some (map_of example_item)"
    by (simp add: example_world_def)
  have h3: "\<not> (isString (StringData ''resource b'') \<and> prefix ''image/'' ''text/plain'')"
    by simp
  have h4: "''text/plain'' \<noteq> []" by simp
  have h5: "\<not> outage example_world (length (requests example_world))"
    "\<not> outage example_world (Suc (length (requests example_world)))"
    "\<not> outage example_world (Suc (Suc (length (requests example_world))))"
    by (simp_all add: example_world_def)
  have bb: "bodyBytes example_env (StringData ''resource b'') = ascii_encode ''resource b''"
    by (simp add: bodyBytes_def example_env_def)
  from storeOriginalContent_roundtrip [OF h1 h2 h3 h4 h5] h1 h2 h3
  show ?thesis by (simp add: bb)
qed


text \<open>
  Three stores followed by a download that do not give back what was stored: a data URL
  stored under an image type comes back as the bytes it encodes (here \<open>ABC\<close>), not as
  the bytes of the string; without a record of the work item the download fails;
  content stored with an empty content type comes back with another content type.
\<close>

theorem storeOriginalContent_roundtrip_counterexample:
  "fst (getOriginalContent example_env example_user example_file True
          (snd (storeOriginalContent example_env example_user example_file
                  (StringData ''data:image/png;base64,QUJD'') ''image/png'' example_world)))
     = Inr \<lparr> oc_data = BufferData [65, 66, 67], oc_contentType = ''image/png'' \<rparr>
   \<and> bodyBytes example_env (StringData ''data:image/png;base64,QUJD'') \<noteq> [65, 66, 67]
   \<and> fst (getOriginalContent example_env example_user example_file True
          (snd (storeOriginalContent example_env example_user example_file
                  (BufferData (ascii_encode ''resource a'')) ''text/plain'' empty_world)))
     = Inl (Error ''Failed to get original content'')
   \<and> fst (getOriginalContent example_env example_user example_file True
          (snd (storeOriginalContent example_env example_user example_file
                  (BufferData (ascii_encode ''resource a'')) [] example_world)))
     \<noteq> Inr \<lparr> oc_data = BufferData (ascii_encode ''resource a''), oc_contentType = [] \<rparr>"
proof -
  have a: "fst (getOriginalContent example_env example_user example_file True
          (snd (storeOriginalContent example_env example_user example_file
                  (StringData ''data:image/png;base64,QUJD'') ''image/png'' example_world)))
     = Inr \<lparr> oc_data = BufferData [65, 66, 67], oc_contentType = ''image/png'' \<rparr>"
    by (simp add: getOriginalContent_def storeOriginalContent_def getWorkItem_def
        s3_getObject_def ddb_getItem_def upload_done_def send_def s3_store_def bodyBytes_def
        io_catch_def io_bind_def io_return_def io_throw_def Let_def stringOr_def
        getS3Locations_def nth_opt_def js_split.simps b64_decode_def b64_alphabet_def
        example_env_def example_world_def)
  have b: "bodyBytes example_env (StringData ''data:image/png;base64,QUJD'') \<noteq> [65, 66, 67]"
    by (simp add: bodyBytes_def example_env_def ascii_encode_def)
  have c: "fst (getOriginalContent example_env example_user example_file True
          (snd (storeOriginalContent example_env example_user example_file
                  (BufferData (ascii_encode ''resource a'')) ''text/plain'' empty_world)))
     = Inl (Error ''Failed to get original content'')"
    by (simp add: getOriginalContent_def storeOriginalContent_def getWorkItem_def
        s3_getObject_def ddb_getItem_def upload_done_def send_def s3_store_def bodyBytes_def
        io_catch_def io_bind_def io_return_def io_throw_def Let_def
        getS3Locations_def example_env_def empty_world_def)
  have d: "fst (getOriginalContent example_env example_user example_file True
          (snd (storeOriginalContent example_env example_user example_file
                  (BufferData (ascii_encode ''resource a'')) [] example_world)))
     = Inr \<lparr> oc_data = BufferData (ascii_encode ''resource a''),
             oc_contentType = ''application/octet-stream'' \<rparr>"
    by (simp add: getOriginalContent_def storeOriginalContent_def getWorkItem_def
        s3_getObject_def ddb_getItem_def upload_done_def send_def s3_store_def bodyBytes_def
        io_catch_def io_bind_def io_return_def io_throw_def Let_def stringOr_def
        getS3Locations_def example_env_def example_world_def)
  from a b c d show ?thesis by simp
qed


section \<open>Reading a supporting document\<close>

lemma getSupportingDocument_rejects:
  assumes "enabled env" and "table w (userId, mainFileId) = Some workItem"
    and "\<not> truthy (workItem ''supportingDocumentId'')
       \<or> \<not> truthy (workItem ''supportingDocumentAdded'')
       \<or> workItem ''supportingDocumentId'' \<noteq> Some (A_S supportingDocId)"
  shows "getSupportingDocument env userId mainFileId supportingDocId w
     = (Inl (Error ''Failed to get supporting document''),
        w\<lparr>requests := requests w @ [GetItemCommand (userId, mainFileId)]\<rparr>)"
proof (cases "outage w (length (requests w))")
  case True
  then show ?thesis
    using assms(1)
    by (simp add: getSupportingDocument_def io_catch_def io_bind_def io_throw_def
        getWorkItem_failed)
next
  case False
  then show ?thesis
    using assms
    by (auto simp: getSupportingDocument_def io_catch_def io_bind_def io_throw_def
        getWorkItem_found)
qed

lemma getSupportingDocument_requests:
  assumes "enabled env"
  shows "requests (snd (getSupportingDocument env userId mainFileId supportingDocId w))
       = requests w @ [GetItemCommand (userId, mainFileId)]
     \<or> (\<exists>workItem. table w (userId, mainFileId) = Some workItem
            \<and> workItem ''supportingDocumentId'' = Some (A_S supportingDocId)
            \<and> truthy (workItem ''supportingDocumentAdded''))
       \<and> requests (snd (getSupportingDocument env userId mainFileId supportingDocId w))
           = requests w @
               [GetItemCommand (userId, mainFileId),
                GetObjectCommand
                  (userId @ ''/'' @ mainFileId @ ''/supporting_documents/'' @ supportingDocId)]"
proof (cases "outage w (length (requests w)) \<or> table w (userId, mainFileId) = None")
  case True
  then show ?thesis
    using assms
    by (simp add: getSupportingDocument_def io_catch_def io_bind_def io_throw_def
        getWorkItem_failed)
next
  case False
  then obtain workItem where it: "table w (userId, mainFileId) = Some workItem"
    and up: "\<not> outage w (length (requests w))" by auto
  show ?thesis
  proof (cases "\<not> truthy (workItem ''supportingDocumentId'')
       \<or> \<not> truthy (workItem ''supportingDocumentAdded'')
       \<or> workItem ''supportingDocumentId'' \<noteq> Some (A_S supportingDocId)")
    case True
    then show ?thesis
      using getSupportingDocument_rejects [OF assms it] by simp
  next
    case False
    then have "requests (snd (getSupportingDocument env userId mainFileId supportingDocId w))
           = requests w @
               [GetItemCommand (userId, mainFileId),
                GetObjectCommand
                  (userId @ ''/'' @ mainFileId @ ''/supporting_documents/'' @ supportingDocId)]"
      using assms it up
      by (auto simp: getSupportingDocument_def io_catch_def io_bind_def io_throw_def io_return_def
          getWorkItem_found s3_getObject_def send_def Let_def split: option.splits)
    with False it show ?thesis by auto
  qed
qed


lemma example_linked:
  "table doc_world (example_user, example_file)
     = Some (map_of example_item
              ++ map_of
                   [(''supportingDocumentId'', A_S example_doc),
                    (''supportingDocumentAdded'', A_BOOL True),
                    (''supportingDocumentDescription'', A_S ''design notes''),
                    (''supportingDocumentName'', A_S ''notes.txt''),
                    (''supportingDocumentType'', A_S ''text/plain''),
                    (''lastModified'', A_S ''2023-11-14T22:13:20.000Z'')])"
  by (simp add: doc_world_def)

lemma example_doc_differs: "example_doc \<noteq> example_png_file"
  by (simp add: example_doc_def example_png_file_def)



text \<open>
  C9 (as amended). \<open>getSupportingDocument\<close> fails, without a request to the object
  store, whenever the work item has no linked supporting document
  (\<open>supportingDocumentId\<close> or \<open>supportingDocumentAdded\<close> absent or falsy) or the
  identifier supplied differs from the linked one; the error it fails with is the one
  error of the operation, \<open>Failed to get supporting document\<close>. It sends a request for
  the blob only when the identifier supplied is the linked one, and then for the key of
  that identifier below the storage root of the work item.
\<close>

theorem getSupportingDocument_validation:
  assumes "enabled env"
  shows "((\<exists>workItem. table w (userId, mainFileId) = Some workItem
             \<and> (\<not> truthy (workItem ''supportingDocumentId'')
                \<or> \<not> truthy (workItem ''supportingDocumentAdded'')
                \<or> workItem ''supportingDocumentId'' \<noteq> Some (A_S supportingDocId))) \<longrightarrow>
          getSupportingDocument env userId mainFileId supportingDocId w
            = (Inl (Error ''Failed to get supporting document''),
               w\<lparr>requests := requests w @ [GetItemCommand (userId, mainFileId)]\<rparr>))
       \<and> (requests (snd (getSupportingDocument env userId mainFileId supportingDocId w))
             \<noteq> requests w @ [GetItemCommand (userId, mainFileId)] \<longrightarrow>
          (\<exists>workItem. table w (userId, mainFileId) = Some workItem
             \<and> workItem ''supportingDocumentId'' = Some (A_S supportingDocId)
             \<and> truthy (workItem ''supportingDocumentAdded''))
          \<and> requests (snd (getSupportingDocument env userId mainFileId supportingDocId w))
              = requests w @
                  [GetItemCommand (userId, mainFileId),
                   GetObjectCommand
                     (userId @ ''/'' @ mainFileId @ ''/supporting_documents/'' @ supportingDocId)])"
  using getSupportingDocument_rejects [OF assms, of w userId mainFileId _ supportingDocId]
    getSupportingDocument_requests [OF assms, of userId mainFileId supportingDocId w]
  by blast

theorem getSupportingDocument_validation_witness:
  "enabled example_env
   \<and> (\<exists>workItem. table doc_world (example_user, example_file) = Some workItem
          \<and> workItem ''supportingDocumentId'' = Some (A_S example_doc)
          \<and> workItem ''supportingDocumentId'' \<noteq> Some (A_S example_png_file))
   \<and> getSupportingDocument example_env example_user example_file example_png_file doc_world
       = (Inl (Error ''Failed to get supporting document''),
          doc_world\<lparr>requests := [GetItemCommand (example_user, example_file)]\<rparr>)
   \<and> requests (snd (getSupportingDocument example_env example_user example_file example_doc
         doc_world))
       = [GetItemCommand (example_user, example_file),
          GetObjectCommand
            (example_user @ ''/'' @ example_file @ ''/supporting_documents/'' @ example_doc)]"
proof -
  have h1: "enabled example_env" by (simp add: example_env_def)
  have rq: "requests doc_world = []" by (simp add: doc_world_def)
  have linked: "\<exists>workItem. table doc_world (example_user, example_file) = Some workItem
          \<and> workItem ''supportingDocumentId'' = Some (A_S example_doc)
          \<and> workItem ''supportingDocumentId'' \<noteq> Some (A_S example_png_file)"
    using example_doc_differs by (simp add: example_linked)
  then have mismatch: "\<exists>workItem. table doc_world (example_user, example_file) = Some workItem
             \<and> (\<not> truthy (workItem ''supportingDocumentId'')
                \<or> \<not> truthy (workItem ''supportingDocumentAdded'')
                \<or> workItem ''supportingDocumentId'' \<noteq> Some (A_S example_png_file))"
    by blast
  from getSupportingDocument_validation [OF h1, of doc_world example_user example_file
      example_png_file] mismatch
  have a: "getSupportingDocument example_env example_user example_file example_png_file doc_world
       = (Inl (Error ''Failed to get supporting document''),
          doc_world\<lparr>requests := [GetItemCommand (example_user, example_file)]\<rparr>)"
    by (simp add: rq)
  have fetched: "requests (snd (getSupportingDocument example_env example_user example_file
        example_doc doc_world))
      \<noteq> requests doc_world @ [GetItemCommand (example_user, example_file)]"
    by (simp add: getSupportingDocument_def getWorkItem_def s3_getObject_def ddb_getItem_def
        send_def io_catch_def io_bind_def io_return_def io_throw_def Let_def marshall_def
        example_item_def example_env_def doc_world_def example_doc_def)
  from getSupportingDocument_validation [OF h1, of doc_world example_user example_file
      example_doc] fetched
  have b: "requests (snd (getSupportingDocument example_env example_user example_file example_doc
         doc_world))
       = [GetItemCommand (example_user, example_file),
          GetObjectCommand
            (example_user @ ''/'' @ example_file @ ''/supporting_documents/'' @ example_doc)]"
    by (simp add: rq)
  from h1 linked a b show ?thesis by (intro conjI)
qed

text \<open>
  A request with an identifier that is not the linked one fails with
  \<open>Failed to get supporting document\<close>, not with the error the validation raises; a
  request with the linked identifier whose blob is missing from the bucket fails with
  the same error: the caller cannot tell a mismatch from a failure of the store.
\<close>

theorem getSupportingDocument_mismatch_counterexample:
  "fst (getSupportingDocument example_env example_user example_file example_png_file doc_world)
     = Inl (Error ''Failed to get supporting document'')
   \<and> fst (getSupportingDocument example_env example_user example_file example_png_file doc_world)
     \<noteq> Inl (Error ''Supporting document ID does not match the work item record'')
   \<and> fst (getSupportingDocument example_env example_user example_file example_doc
          doc_world_without_blob)
     = Inl (Error ''Failed to get supporting document'')"
proof -
  have a: "fst (getSupportingDocument example_env example_user example_file example_png_file
      doc_world) = Inl (Error ''Failed to get supporting document'')"
    by (simp add: getSupportingDocument_def getWorkItem_def ddb_getItem_def
        send_def io_catch_def io_bind_def io_return_def io_throw_def Let_def marshall_def
        example_item_def example_env_def doc_world_def example_doc_def example_png_file_def)
  have b: "fst (getSupportingDocument example_env example_user example_file example_doc
          doc_world_without_blob)
     = Inl (Error ''Failed to get supporting document'')"
    by (simp add: getSupportingDocument_def getWorkItem_def s3_getObject_def ddb_getItem_def
        send_def io_catch_def io_bind_def io_return_def io_throw_def Let_def marshall_def
        example_item_def example_env_def doc_world_def doc_world_without_blob_def
        example_doc_def)
  from a b show ?thesis by simp
qed


section \<open>Uploads of archives and of several files\<close>

lemma io_throw_apply: "io_throw e w = (Inl e, w)"
  by (simp add: io_throw_def)

lemma io_return_apply: "io_return x w = (Inr x, w)"
  by (simp add: io_return_def)

lemma io_bind_apply:
  "io_bind m f w = (case m w of (Inl e, w') \<Rightarrow> (Inl e, w') | (Inr x, w') \<Rightarrow> f x w')"
  by (simp add: io_bind_def)

lemma io_catch_apply:
  "io_catch m h w = (case m w of (Inl e, w') \<Rightarrow> h e w' | (Inr x, w') \<Rightarrow> (Inr x, w'))"
  by (simp add: io_catch_def)

lemma upload_done_table: "table (snd (upload_done env key body ct w)) = table w"
  by (simp add: upload_done_def send_def Let_def)

lemma io_catch_throw_table:
  "table (snd (io_catch m (\<lambda>error. io_throw e) w)) = table (snd (m w))"
  by (cases "m w") (simp add: io_catch_apply io_throw_apply split: sum.splits)

lemma storeOriginalContent_table:
  "table (snd (storeOriginalContent env userId fileId content fileType w)) = table w"
  by (cases content)
    (simp_all add: storeOriginalContent_def Let_def io_throw_apply io_catch_throw_table
      upload_done_table)

lemma storePackedContent_table:
  "table (snd (storePackedContent env userId fileId content w)) = table w"
  by (simp add: storePackedContent_def Let_def io_throw_apply io_catch_throw_table upload_done_table)


lemma ddb_putItem_table:
  "table (snd (ddb_putItem it w)) = table w
   \<or> (\<exists>k. table (snd (ddb_putItem it w)) = (table w)(k \<mapsto> it))"
proof (cases "outage w (length (requests w))")
  case True
  then show ?thesis by (simp add: ddb_putItem_def send_refused)
next
  case False
  show ?thesis
  proof (cases "itemKey it")
    case None
    with False show ?thesis by (simp add: ddb_putItem_def send_served)
  next
    case (Some k)
    with False have "table (snd (ddb_putItem it w)) = (table w)(k \<mapsto> it)"
      by (simp add: ddb_putItem_def send_served)
    then show ?thesis by blast
  qed
qed

lemma storeWorkItemInDynamoDB_table:
  "table (snd (storeWorkItemInDynamoDB workItem w)) = table w
   \<or> (\<exists>k. table (snd (storeWorkItemInDynamoDB workItem w)) = (table w)(k \<mapsto> map_of workItem))"
proof (cases "marshall workItem")
  case (Inl e)
  then show ?thesis
    by (simp add: storeWorkItemInDynamoDB_def io_catch_throw_table io_bind_lift_Inl io_throw_apply)
next
  case (Inr it)
  then have "it = map_of workItem" by (simp add: marshall_def split: if_splits)
  with Inr ddb_putItem_table [of "map_of workItem" w] show ?thesis
    by (simp add: storeWorkItemInDynamoDB_def io_catch_throw_table io_bind_lift_Inr)
qed


text \<open>
  Whatever the three stores of an upload do, the table afterwards is the table after
  the one write of the work item.
\<close>

lemma upload_steps_table:
  "table (snd (io_bind (storeWorkItemInDynamoDB workItem) (\<lambda>_.
               io_bind (storeOriginalContent env userId fileId content fileType) (\<lambda>_.
               io_bind (storePackedContent env userId fileId packed) (\<lambda>_.
               io_return r))) w))
     = table (snd (storeWorkItemInDynamoDB workItem w))"
proof -
  obtain r1 w1 where s1: "storeWorkItemInDynamoDB workItem w = (r1, w1)"
    by (cases "storeWorkItemInDynamoDB workItem w")
  obtain r2 w2 where s2: "storeOriginalContent env userId fileId content fileType w1 = (r2, w2)"
    by (cases "storeOriginalContent env userId fileId content fileType w1")
  obtain r3 w3 where s3: "storePackedContent env userId fileId packed w2 = (r3, w3)"
    by (cases "storePackedContent env userId fileId packed w2")
  have t2: "table w2 = table w1"
    using storeOriginalContent_table [of env userId fileId content fileType w1] by (simp add: s2)
  have t3: "table w3 = table w2"
    using storePackedContent_table [of env userId fileId packed w2] by (simp add: s3)
  show ?thesis
  proof (cases r1)
    case (Inl e)
    then show ?thesis by (simp add: io_bind_apply s1)
  next
    case r1: (Inr x1)
    show ?thesis
    proof (cases r2)
      case (Inl e)
      then show ?thesis by (simp add: io_bind_apply s1 r1 s2 t2)
    next
      case r2: (Inr x2)
      show ?thesis
        by (cases r3) (simp_all add: io_bind_apply io_return_apply s1 r1 s2 r2 s3 t2 t3)
    qed
  qed
qed


lemma io_catch_rethrow_table:
  "table (snd (io_catch m (\<lambda>error. io_throw (g error)) w)) = table (snd (m w))"
  by (cases "m w") (simp add: io_catch_apply io_throw_apply split: sum.splits)

lemma io_lift_apply: "io_lift r w = (r, w)"
  by (simp add: io_lift_def)

lemma handleZipFile_written:
  assumes "table (snd (handleZipFile env userId filename buffer w)) k \<noteq> table w k"
  shows "\<exists>p it. processZipFile env buffer filename = Inr p
           \<and> table (snd (handleZipFile env userId filename buffer w)) k = Some it
           \<and> it ''tokenCount'' = Some (A_N (pp_tokenCount p))
           \<and> it ''exceedsTokenLimit'' = Some (A_BOOL (pp_exceedsTokenLimit p))"
proof (cases "processZipFile env buffer filename")
  case (Inl e)
  then have "table (snd (handleZipFile env userId filename buffer w)) = table w"
    by (simp add: handleZipFile_def io_catch_rethrow_table io_bind_apply io_lift_apply)
  with assms show ?thesis by simp
next
  case (Inr p)
  define fileId where "fileId = createFileIdHash env (filename @ dateNow env)"
  define workItem where "workItem =
     [(''userId'', A_S userId),
      (''fileId'', A_S fileId),
      (''fileName'', A_S filename),
      (''fileType'', A_S ''application/zip''),
      (''uploadDate'', A_S (isoNow env)),
      (''analysisStatus'', A_S ''NOT_STARTED''),
      (''analysisProgress'', A_N 0),
      (''iacGenerationStatus'', A_S ''NOT_STARTED''),
      (''iacGenerationProgress'', A_N 0),
      (''s3Prefix'', A_S (userId @ ''/'' @ fileId)),
      (''lastModified'', A_S (isoNow env)),
      (''uploadMode'', A_S (modeValue env ZIP_FILE)),
      (''tokenCount'', A_N (pp_tokenCount p)),
      (''exceedsTokenLimit'', A_BOOL (pp_exceedsTokenLimit p))]"
  have t: "table (snd (handleZipFile env userId filename buffer w))
      = table (snd (storeWorkItemInDynamoDB workItem w))"
    unfolding handleZipFile_def io_catch_rethrow_table
    by (simp add: io_bind_apply [of "io_lift _"] io_lift_apply Inr Let_def upload_steps_table
        workItem_def fileId_def)
  have tc: "map_of workItem ''tokenCount'' = Some (A_N (pp_tokenCount p))"
    and ex: "map_of workItem ''exceedsTokenLimit'' = Some (A_BOOL (pp_exceedsTokenLimit p))"
    by (simp_all add: workItem_def)
  from storeWorkItemInDynamoDB_table [of workItem w] assms t
  obtain k' where "table (snd (handleZipFile env userId filename buffer w))
      = (table w)(k' \<mapsto> map_of workItem)"
    by auto
  with assms have "table (snd (handleZipFile env userId filename buffer w)) k
      = Some (map_of workItem)"
    by (auto split: if_splits)
  with Inr tc ex show ?thesis by blast
qed

lemma handleMultipleFiles_written:
  assumes "table (snd (handleMultipleFiles env userId files w)) k \<noteq> table w k"
  shows "\<exists>p it. processMultipleFiles env files = Inr p
           \<and> table (snd (handleMultipleFiles env userId files w)) k = Some it
           \<and> it ''tokenCount'' = Some (A_N (pp_tokenCount p))
           \<and> it ''exceedsTokenLimit'' = Some (A_BOOL (pp_exceedsTokenLimit p))"
proof -
  have same: "table (snd (handleMultipleFiles env userId files w)) = table w"
    if "(\<exists>e. createZipFromFiles env files = Inl e) \<or> (\<exists>e. processMultipleFiles env files = Inl e)
        \<or> files = []"
  proof (cases "createZipFromFiles env files")
    case (Inl e)
    then show ?thesis
      by (simp add: handleMultipleFiles_def io_catch_rethrow_table io_bind_apply io_lift_apply)
  next
    case z: (Inr zipBuffer)
    show ?thesis
    proof (cases "processMultipleFiles env files")
      case (Inl e)
      then show ?thesis
        by (simp add: handleMultipleFiles_def io_catch_rethrow_table io_bind_apply io_lift_apply z)
    next
      case (Inr p)
      with that z have e: "files = []" by auto
      with z Inr have "createZipFromFiles env [] = Inr zipBuffer"
        and "processMultipleFiles env [] = Inr p"
        by simp_all
      then show ?thesis
        by (simp add: handleMultipleFiles_def io_catch_rethrow_table io_bind_apply io_lift_apply
            io_throw_apply e)
    qed
  qed
  have ok: "\<not> ((\<exists>e. createZipFromFiles env files = Inl e)
        \<or> (\<exists>e. processMultipleFiles env files = Inl e) \<or> files = [])"
    using same assms by auto
  obtain zipBuffer where z: "createZipFromFiles env files = Inr zipBuffer"
    using ok by (cases "createZipFromFiles env files") simp_all
  obtain p where p: "processMultipleFiles env files = Inr p"
    using ok by (cases "processMultipleFiles env files") simp_all
  obtain file0 rest where f: "files = file0 # rest"
    using ok by (cases files) simp_all
  note z' = z [unfolded f] and p' = p [unfolded f]
  define fileId where "fileId = createFileIdHash env (uf_filename file0 @ dateNow env)"
  define combinedFilename where "combinedFilename =
     (if length (file0 # rest) < 2 then array_join ''_'' (map uf_filename (file0 # rest))
      else uf_filename file0 @ ''_and_'' @ string_of_nat (length (file0 # rest) - 1)
             @ ''_more_files'')"
  define workItem where "workItem =
     [(''userId'', A_S userId),
      (''fileId'', A_S fileId),
      (''fileName'', A_S combinedFilename),
      (''fileType'', A_S ''application/multiple-files''),
      (''uploadDate'', A_S (isoNow env)),
      (''analysisStatus'', A_S ''NOT_STARTED''),
      (''analysisProgress'', A_N 0),
      (''iacGenerationStatus'', A_S ''NOT_STARTED''),
      (''iacGenerationProgress'', A_N 0),
      (''s3Prefix'', A_S (userId @ ''/'' @ fileId)),
      (''lastModified'', A_S (isoNow env)),
      (''uploadMode'', A_S (modeValue env MULTIPLE_FILES)),
      (''tokenCount'', A_N (pp_tokenCount p)),
      (''exceedsTokenLimit'', A_BOOL (pp_exceedsTokenLimit p))]"
  have "table (snd (handleMultipleFiles env userId (file0 # rest) w))
      = table (snd (storeWorkItemInDynamoDB workItem w))"
    unfolding handleMultipleFiles_def io_catch_rethrow_table
    by (simp add: io_bind_apply [of "io_lift _"] io_lift_apply z' p' Let_def upload_steps_table
        workItem_def fileId_def combinedFilename_def)
  then have t: "table (snd (handleMultipleFiles env userId files w))
      = table (snd (storeWorkItemInDynamoDB workItem w))"
    by (simp add: f)
  have tc: "map_of workItem ''tokenCount'' = Some (A_N (pp_tokenCount p))"
    and ex: "map_of workItem ''exceedsTokenLimit'' = Some (A_BOOL (pp_exceedsTokenLimit p))"
    by (simp_all add: workItem_def)
  from storeWorkItemInDynamoDB_table [of workItem w] assms t
  obtain k' where "table (snd (handleMultipleFiles env userId files w))
      = (table w)(k' \<mapsto> map_of workItem)"
    by auto
  with assms have "table (snd (handleMultipleFiles env userId files w)) k
      = Some (map_of workItem)"
    by (auto split: if_splits)
  with p tc ex show ?thesis by blast
qed

lemma io_bind_Inr:
  "fst (io_bind m f w) = Inr r \<Longrightarrow> \<exists>x w'. m w = (Inr x, w') \<and> fst (f x w') = Inr r"
  by (cases "m w") (auto simp: io_bind_apply split: sum.splits)

lemma io_catch_rethrow_Inr:
  "fst (io_catch m (\<lambda>error. io_throw (g error)) w) = Inr r \<Longrightarrow> fst (m w) = Inr r"
  by (cases "m w") (auto simp: io_catch_apply io_throw_apply split: sum.splits)

lemma upload_steps_result:
  "fst (io_bind a (\<lambda>_. io_bind b (\<lambda>_. io_bind c (\<lambda>_. io_return x))) w) = Inr r \<Longrightarrow> r = x"
  by (auto dest!: io_bind_Inr simp: io_return_apply)

lemma handleZipFile_result:
  assumes "fst (handleZipFile env userId filename buffer w) = Inr r"
  shows "\<exists>p. processZipFile env buffer filename = Inr p
           \<and> ur_tokenCount r = pp_tokenCount p
           \<and> ur_exceedsTokenLimit r = pp_exceedsTokenLimit p"
proof (cases "processZipFile env buffer filename")
  case (Inl e)
  then have "fst (handleZipFile env userId filename buffer w)
      = Inl (Error (''Failed to process zip file: '' @ message e))"
    by (simp add: handleZipFile_def io_catch_apply io_bind_apply io_lift_apply io_throw_apply)
  with assms show ?thesis by simp
next
  case (Inr p)
  from assms have "fst (io_bind (io_lift (processZipFile env buffer filename)) (\<lambda>packedProject.
          let fileId = createFileIdHash env (filename @ dateNow env);
              timestamp = isoNow env;
              workItem =
                   [(''userId'', A_S userId),
                    (''fileId'', A_S fileId),
                    (''fileName'', A_S filename),
                    (''fileType'', A_S ''application/zip''),
                    (''uploadDate'', A_S timestamp),
                    (''analysisStatus'', A_S ''NOT_STARTED''),
                    (''analysisProgress'', A_N 0),
                    (''iacGenerationStatus'', A_S ''NOT_STARTED''),
                    (''iacGenerationProgress'', A_N 0),
                    (''s3Prefix'', A_S (userId @ ''/'' @ fileId)),
                    (''lastModified'', A_S timestamp),
                    (''uploadMode'', A_S (modeValue env ZIP_FILE)),
                    (''tokenCount'', A_N (pp_tokenCount packedProject)),
                    (''exceedsTokenLimit'', A_BOOL (pp_exceedsTokenLimit packedProject))]
          in io_bind (storeWorkItemInDynamoDB workItem) (\<lambda>_.
             io_bind (storeOriginalContent env userId fileId (BufferData buffer) ''application/zip'') (\<lambda>_.
             io_bind (storePackedContent env userId fileId (pp_packedContent packedProject)) (\<lambda>_.
             io_return
               \<lparr> ur_fileId = fileId,
                 ur_tokenCount = pp_tokenCount packedProject,
                 ur_exceedsTokenLimit = pp_exceedsTokenLimit packedProject \<rparr>)))) w) = Inr r"
    unfolding handleZipFile_def by (rule io_catch_rethrow_Inr)
  then have "r = \<lparr> ur_fileId = createFileIdHash env (filename @ dateNow env),
                 ur_tokenCount = pp_tokenCount p,
                 ur_exceedsTokenLimit = pp_exceedsTokenLimit p \<rparr>"
    by (auto simp: io_bind_apply [of "io_lift _"] io_lift_apply Inr Let_def
        dest: upload_steps_result)
  with Inr show ?thesis by simp
qed

lemma handleMultipleFiles_result:
  assumes "fst (handleMultipleFiles env userId files w) = Inr r"
  shows "\<exists>p. processMultipleFiles env files = Inr p
           \<and> ur_tokenCount r = pp_tokenCount p
           \<and> ur_exceedsTokenLimit r = pp_exceedsTokenLimit p"
proof -
  from assms have a: "fst (io_bind (io_lift (createZipFromFiles env files)) (\<lambda>zipBuffer.
        io_bind (io_lift (processMultipleFiles env files)) (\<lambda>packedProject.
          case files of
            [] \<Rightarrow>
              io_throw
                (Error (''Cannot read properties of undefined (reading '' @ [CHR 0x27]
                   @ ''filename'' @ [CHR 0x27] @ '')''))
          | file0 # _ \<Rightarrow>
              let fileId = createFileIdHash env (uf_filename file0 @ dateNow env);
                  timestamp = isoNow env;
                  combinedFilename =
                    (if length files < 2 then array_join ''_'' (map uf_filename files)
                     else uf_filename file0 @ ''_and_'' @ string_of_nat (length files - 1)
                            @ ''_more_files'');
                  workItem =
                   [(''userId'', A_S userId),
                    (''fileId'', A_S fileId),
                    (''fileName'', A_S combinedFilename),
                    (''fileType'', A_S ''application/multiple-files''),
                    (''uploadDate'', A_S timestamp),
                    (''analysisStatus'', A_S ''NOT_STARTED''),
                    (''analysisProgress'', A_N 0),
                    (''iacGenerationStatus'', A_S ''NOT_STARTED''),
                    (''iacGenerationProgress'', A_N 0),
                    (''s3Prefix'', A_S (userId @ ''/'' @ fileId)),
                    (''lastModified'', A_S timestamp),
                    (''uploadMode'', A_S (modeValue env MULTIPLE_FILES)),
                    (''tokenCount'', A_N (pp_tokenCount packedProject)),
                    (''exceedsTokenLimit'', A_BOOL (pp_exceedsTokenLimit packedProject))]
              in io_bind (storeWorkItemInDynamoDB workItem) (\<lambda>_.
                 io_bind (storeOriginalContent env userId fileId (BufferData zipBuffer) ''application/zip'') (\<lambda>_.
                 io_bind (storePackedContent env userId fileId (pp_packedContent packedProject)) (\<lambda>_.
                 io_return
                   \<lparr> ur_fileId = fileId,
                     ur_tokenCount = pp_tokenCount packedProject,
                     ur_exceedsTokenLimit = pp_exceedsTokenLimit packedProject \<rparr>))))) w) = Inr r"
    unfolding handleMultipleFiles_def by (rule io_catch_rethrow_Inr)
  show ?thesis
  proof (cases "createZipFromFiles env files")
    case (Inl e)
    with a show ?thesis by (simp add: io_bind_apply io_lift_apply)
  next
    case z: (Inr zipBuffer)
    show ?thesis
    proof (cases "processMultipleFiles env files")
      case (Inl e)
      with a z show ?thesis by (simp add: io_bind_apply io_lift_apply)
    next
      case p: (Inr p)
      show ?thesis
      proof (cases files)
        case Nil
        with a z p show ?thesis by (simp add: io_bind_apply io_lift_apply io_throw_apply)
      next
        case (Cons file0 rest)
        with a z p have "ur_tokenCount r = pp_tokenCount p
            \<and> ur_exceedsTokenLimit r = pp_exceedsTokenLimit p"
          by (auto simp: io_bind_apply [of "io_lift _"] io_lift_apply Let_def
              dest: upload_steps_result)
        with p show ?thesis by simp
      qed
    qed
  qed
qed

lemma ascii_decode_append: "ascii_decode (a @ b) = ascii_decode a @ ascii_decode b"
  by (simp add: ascii_decode_def)

lemma ascii_encode_Nil: "ascii_encode s = [] \<longleftrightarrow> s = []"
  by (simp add: ascii_encode_def)

lemma spec_packedProject_consistent:
  "pp_exceedsTokenLimit (spec_packedProject estimate limit packed)
     = (pp_tokenCount (spec_packedProject estimate limit packed) > limit)"
  by (simp add: spec_packedProject_def)

lemma spec_processZipFile_consistent:
  "spec_processZipFile pack estimate limit buffer filename = Inr p \<Longrightarrow>
   pp_exceedsTokenLimit p = (pp_tokenCount p > limit)"
  by (auto simp: spec_processZipFile_def spec_packedProject_consistent split: sum.splits)

lemma spec_processMultipleFiles_consistent:
  "spec_processMultipleFiles packFiles estimate limit files = Inr p \<Longrightarrow>
   pp_exceedsTokenLimit p = (pp_tokenCount p > limit)"
  by (auto simp: spec_processMultipleFiles_def spec_packedProject_consistent split: sum.splits)

lemma example_zip_upload:
  "handleZipFile example_env example_user ''project.zip'' (ascii_encode ''resource a'') empty_world
     = (Inr \<lparr> ur_fileId = example_zip_file, ur_tokenCount = 2, ur_exceedsTokenLimit = False \<rparr>,
        \<lparr> objects =
            [(example_user @ ''/'' @ example_zip_file @ ''/packed_content'',
              \<lparr> obj_body = ascii_encode ''resource a'', obj_contentType = Some ''text/plain'' \<rparr>),
             (example_user @ ''/'' @ example_zip_file @ ''/original_content'',
              \<lparr> obj_body = ascii_encode ''resource a'',
                obj_contentType = Some ''application/zip'' \<rparr>)],
          table = (table empty_world)((example_user, example_zip_file) \<mapsto> map_of zip_item),
          requests =
            [PutItemCommand (Some (example_user, example_zip_file)),
             Upload (example_user @ ''/'' @ example_zip_file @ ''/original_content''),
             Upload (example_user @ ''/'' @ example_zip_file @ ''/packed_content'')],
          outage = (\<lambda>n. False) \<rparr>)"
  by (simp add: handleZipFile_def storeWorkItemInDynamoDB_def storeOriginalContent_def
      storePackedContent_def ddb_putItem_def upload_done_def send_def s3_store_def bodyBytes_def
      itemKey_def marshall_def marshallable_def createFileIdHash_def getS3Locations_def
      io_catch_def io_bind_def io_return_def io_throw_def io_lift_def Let_def
      spec_processZipFile_def spec_packedProject_def example_pack_def example_estimate_def
      example_digest_def ascii_roundtrip ascii_encode_Nil zip_item_def example_env_def empty_world_def)


lemma example_files_upload:
  "fst (handleMultipleFiles example_env example_user example_files empty_world)
     = Inr \<lparr> ur_fileId = example_tf_file, ur_tokenCount = 5, ur_exceedsTokenLimit = True \<rparr>
   \<and> requests (snd (handleMultipleFiles example_env example_user example_files empty_world))
     = [PutItemCommand (Some (example_user, example_tf_file)),
        Upload (example_user @ ''/'' @ example_tf_file @ ''/original_content''),
        Upload (example_user @ ''/'' @ example_tf_file @ ''/packed_content'')]
   \<and> table (snd (handleMultipleFiles example_env example_user example_files empty_world))
        (example_user, example_tf_file) \<noteq> None"
  by (simp add: handleMultipleFiles_def storeWorkItemInDynamoDB_def storeOriginalContent_def
      storePackedContent_def ddb_putItem_def upload_done_def send_def s3_store_def bodyBytes_def
      itemKey_def marshall_def marshallable_def createFileIdHash_def getS3Locations_def
      io_catch_def io_bind_def io_return_def io_throw_def io_lift_def Let_def
      spec_processMultipleFiles_def spec_packedProject_def example_packFiles_def
      example_estimate_def example_digest_def ascii_roundtrip ascii_encode_Nil example_files_def
      example_env_def empty_world_def)



text \<open>
  C3. With the packer as the spec describes it (\<open>exceedsTokenLimit\<close> is
  \<open>tokenCount > limit\<close>), every record that \<open>handleZipFile\<close> or \<open>handleMultipleFiles\<close>
  writes to the table holds a token count \<open>T\<close> and the flag \<open>T > limit\<close>, and so does the
  result they return; with \<open>T = limit\<close> the flag is false.
\<close>

theorem token_limit_recorded_consistently:
  assumes "processZipFile env = spec_processZipFile pack estimate limit"
    and "processMultipleFiles env = spec_processMultipleFiles packFiles estimate limit"
  shows "(\<forall>k. table (snd (handleZipFile env userId filename buffer w)) k \<noteq> table w k \<longrightarrow>
            (\<exists>it T. table (snd (handleZipFile env userId filename buffer w)) k = Some it
               \<and> it ''tokenCount'' = Some (A_N T)
               \<and> it ''exceedsTokenLimit'' = Some (A_BOOL (T > limit))))
       \<and> (\<forall>k. table (snd (handleMultipleFiles env userId files w)) k \<noteq> table w k \<longrightarrow>
            (\<exists>it T. table (snd (handleMultipleFiles env userId files w)) k = Some it
               \<and> it ''tokenCount'' = Some (A_N T)
               \<and> it ''exceedsTokenLimit'' = Some (A_BOOL (T > limit))))
       \<and> (\<forall>r. fst (handleZipFile env userId filename buffer w) = Inr r \<longrightarrow>
            ur_exceedsTokenLimit r = (ur_tokenCount r > limit))
       \<and> (\<forall>r. fst (handleMultipleFiles env userId files w) = Inr r \<longrightarrow>
            ur_exceedsTokenLimit r = (ur_tokenCount r > limit))"
proof (intro conjI allI impI)
  fix k
  assume "table (snd (handleZipFile env userId filename buffer w)) k \<noteq> table w k"
  from handleZipFile_written [OF this] obtain p it
    where p: "processZipFile env buffer filename = Inr p"
      and it: "table (snd (handleZipFile env userId filename buffer w)) k = Some it"
        "it ''tokenCount'' = Some (A_N (pp_tokenCount p))"
        "it ''exceedsTokenLimit'' = Some (A_BOOL (pp_exceedsTokenLimit p))"
    by blast
  from p have "pp_exceedsTokenLimit p = (pp_tokenCount p > limit)"
    unfolding assms(1) by (rule spec_processZipFile_consistent)
  with it show "\<exists>it T. table (snd (handleZipFile env userId filename buffer w)) k = Some it
               \<and> it ''tokenCount'' = Some (A_N T)
               \<and> it ''exceedsTokenLimit'' = Some (A_BOOL (T > limit))"
    by auto
next
  fix k
  assume "table (snd (handleMultipleFiles env userId files w)) k \<noteq> table w k"
  from handleMultipleFiles_written [OF this] obtain p it
    where p: "processMultipleFiles env files = Inr p"
      and it: "table (snd (handleMultipleFiles env userId files w)) k = Some it"
        "it ''tokenCount'' = Some (A_N (pp_tokenCount p))"
        "it ''exceedsTokenLimit'' = Some (A_BOOL (pp_exceedsTokenLimit p))"
    by blast
  from p have "pp_exceedsTokenLimit p = (pp_tokenCount p > limit)"
    unfolding assms(2) by (rule spec_processMultipleFiles_consistent)
  with it show "\<exists>it T. table (snd (handleMultipleFiles env userId files w)) k = Some it
               \<and> it ''tokenCount'' = Some (A_N T)
               \<and> it ''exceedsTokenLimit'' = Some (A_BOOL (T > limit))"
    by auto
next
  fix r
  assume "fst (handleZipFile env userId filename buffer w) = Inr r"
  from handleZipFile_result [OF this] obtain p
    where p: "processZipFile env buffer filename = Inr p"
      and r: "ur_tokenCount r = pp_tokenCount p" "ur_exceedsTokenLimit r = pp_exceedsTokenLimit p"
    by blast
  from p have "pp_exceedsTokenLimit p = (pp_tokenCount p > limit)"
    unfolding assms(1) by (rule spec_processZipFile_consistent)
  with r show "ur_exceedsTokenLimit r = (ur_tokenCount r > limit)" by simp
next
  fix r
  assume "fst (handleMultipleFiles env userId files w) = Inr r"
  from handleMultipleFiles_result [OF this] obtain p
    where p: "processMultipleFiles env files = Inr p"
      and r: "ur_tokenCount r = pp_tokenCount p" "ur_exceedsTokenLimit r = pp_exceedsTokenLimit p"
    by blast
  from p have "pp_exceedsTokenLimit p = (pp_tokenCount p > limit)"
    unfolding assms(2) by (rule spec_processMultipleFiles_consistent)
  with r show "ur_exceedsTokenLimit r = (ur_tokenCount r > limit)" by simp
qed

theorem token_limit_recorded_consistently_witness:
  "processZipFile example_env = spec_processZipFile example_pack example_estimate 2
   \<and> processMultipleFiles example_env = spec_processMultipleFiles example_packFiles example_estimate 2
   \<and> table (snd (handleZipFile example_env example_user ''project.zip''
                  (ascii_encode ''resource a'') empty_world)) (example_user, example_zip_file)
       = Some (map_of zip_item)
   \<and> map_of zip_item ''tokenCount'' = Some (A_N 2)
   \<and> map_of zip_item ''exceedsTokenLimit'' = Some (A_BOOL False)
   \<and> fst (handleZipFile example_env example_user ''project.zip''
             (ascii_encode ''resource a'') empty_world)
       = Inr \<lparr> ur_fileId = example_zip_file, ur_tokenCount = 2, ur_exceedsTokenLimit = False \<rparr>
   \<and> (\<exists>it T. table (snd (handleZipFile example_env example_user ''project.zip''
                  (ascii_encode ''resource a'') empty_world)) (example_user, example_zip_file)
                = Some it
          \<and> it ''tokenCount'' = Some (A_N T) \<and> it ''exceedsTokenLimit'' = Some (A_BOOL (T > 2)))
   \<and> fst (handleMultipleFiles example_env example_user example_files empty_world)
       = Inr \<lparr> ur_fileId = example_tf_file, ur_tokenCount = 5, ur_exceedsTokenLimit = True \<rparr>
   \<and> (\<exists>it T. table (snd (handleMultipleFiles example_env example_user example_files empty_world))
                 (example_user, example_tf_file) = Some it
          \<and> it ''tokenCount'' = Some (A_N T) \<and> it ''exceedsTokenLimit'' = Some (A_BOOL (T > 2)))"
proof -
  have h1: "processZipFile example_env = spec_processZipFile example_pack example_estimate 2"
    and h2: "processMultipleFiles example_env
      = spec_processMultipleFiles example_packFiles example_estimate 2"
    by (simp_all add: example_env_def)
  note main = token_limit_recorded_consistently [OF h1 h2, of example_user "''project.zip''"
      "ascii_encode ''resource a''" empty_world example_files]
  have t: "table (snd (handleZipFile example_env example_user ''project.zip''
                  (ascii_encode ''resource a'') empty_world)) (example_user, example_zip_file)
       = Some (map_of zip_item)"
    by (simp add: example_zip_upload)
  then have changed: "table (snd (handleZipFile example_env example_user ''project.zip''
                  (ascii_encode ''resource a'') empty_world)) (example_user, example_zip_file)
       \<noteq> table empty_world (example_user, example_zip_file)"
    by (simp add: empty_world_def)
  have c: "map_of zip_item ''tokenCount'' = Some (A_N 2)"
    "map_of zip_item ''exceedsTokenLimit'' = Some (A_BOOL False)"
    by (simp_all add: zip_item_def)
  from main changed
  have z: "\<exists>it T. table (snd (handleZipFile example_env example_user ''project.zip''
                  (ascii_encode ''resource a'') empty_world)) (example_user, example_zip_file)
                = Some it
          \<and> it ''tokenCount'' = Some (A_N T) \<and> it ''exceedsTokenLimit'' = Some (A_BOOL (T > 2))"
    by blast
  have changed': "table (snd (handleMultipleFiles example_env example_user example_files
        empty_world)) (example_user, example_tf_file)
       \<noteq> table empty_world (example_user, example_tf_file)"
    using example_files_upload by (simp add: empty_world_def)
  from main changed'
  have m: "\<exists>it T. table (snd (handleMultipleFiles example_env example_user example_files
                  empty_world)) (example_user, example_tf_file) = Some it
          \<and> it ''tokenCount'' = Some (A_N T) \<and> it ''exceedsTokenLimit'' = Some (A_BOOL (T > 2))"
    by blast
  have zr: "fst (handleZipFile example_env example_user ''project.zip''
             (ascii_encode ''resource a'') empty_world)
       = Inr \<lparr> ur_fileId = example_zip_file, ur_tokenCount = 2, ur_exceedsTokenLimit = False \<rparr>"
    by (simp add: example_zip_upload)
  from h1 h2 t c zr z example_files_upload m show ?thesis by (intro conjI) simp_all
qed


section \<open>The storage configured off\<close>



text \<open>
  The two upload handlers do not test the configuration: when the packer succeeds, the
  token count is a safe integer and the table serves the request, each writes the
  record of the work item and then fails at the store of the original content.
\<close>

lemma handleZipFile_disabled:
  assumes "\<not> enabled env" "processZipFile env buffer filename = Inr p"
    and "\<not> outage w (length (requests w))" "marshallable (A_N (pp_tokenCount p))"
  shows "\<exists>it. handleZipFile env userId filename buffer w
     = (Inl (Error ''Failed to process zip file: Storage is not enabled''),
        w\<lparr>requests := requests w @
             [PutItemCommand (Some (userId, createFileIdHash env (filename @ dateNow env)))],
          table := (table w)((userId, createFileIdHash env (filename @ dateNow env)) \<mapsto> it)\<rparr>)"
  using assms
  by (simp add: handleZipFile_def storeWorkItemInDynamoDB_def storeOriginalContent_def
      ddb_putItem_def send_served itemKey_def marshall_def marshallable_def
      io_catch_def io_bind_def io_throw_def io_lift_def Let_def)
    (rule exI, rule refl)

lemma handleMultipleFiles_disabled:
  assumes "\<not> enabled env" "createZipFromFiles env (file0 # rest) = Inr zipBuffer"
    and "processMultipleFiles env (file0 # rest) = Inr p"
    and "\<not> outage w (length (requests w))" "marshallable (A_N (pp_tokenCount p))"
  shows "\<exists>it. handleMultipleFiles env userId (file0 # rest) w
     = (Inl (Error ''Failed to process multiple files: Storage is not enabled''),
        w\<lparr>requests := requests w @
             [PutItemCommand (Some (userId, createFileIdHash env (uf_filename file0 @ dateNow env)))],
          table := (table w)((userId, createFileIdHash env (uf_filename file0 @ dateNow env))
                     \<mapsto> it)\<rparr>)"
  using assms
  by (simp add: handleMultipleFiles_def storeWorkItemInDynamoDB_def storeOriginalContent_def
      ddb_putItem_def send_served itemKey_def marshall_def marshallable_def
      io_catch_def io_bind_def io_throw_def io_lift_def Let_def)
    ((intro conjI impI)?; rule exI; rule refl)



end
